theory Spec2Isabelle
  imports Complex_Main
begin

section \<open>Python values, exceptions and the external collaborators\<close>

text \<open>
  The request body of \<^verbatim>\<open>/predict\<close> is whatever \<^verbatim>\<open>request.get_json(force=True)\<close>
  returns: a Python value built from JSON. A Python \<^verbatim>\<open>float\<close> is a finite number, an
  infinity or NaN; the finite ones are modelled as exact real numbers, without the
  rounding error of the binary format. JSON text can hold all of them (\<^verbatim>\<open>NaN\<close>,
  \<^verbatim>\<open>Infinity\<close>, \<^verbatim>\<open>1e999\<close>), and so can a string given to \<^verbatim>\<open>float\<close>. Python's unbounded
  \<^verbatim>\<open>int\<close> is \<^typ>\<open>int\<close>. A \<^verbatim>\<open>dict\<close> is an association list read with \<^const>\<open>map_of\<close>.
\<close>

datatype pyfloat = Fin real | PosInf | NegInf | NaN

datatype pyval =
    PNone
  | PBool bool
  | PInt int
  | PFloat pyfloat
  | PStr string
  | PList "pyval list"
  | PDict "(string \<times> pyval) list"

datatype pyexn = TypeError | ValueError | AttributeError | OverflowError | OtherException string

text \<open>
  What \<^verbatim>\<open>app.py\<close> loads or calls but does not define is a parameter of the model:
  the two builtin parsers \<^verbatim>\<open>int(str)\<close> and \<^verbatim>\<open>float(str)\<close> (\<open>None\<close> where Python raises
  \<^verbatim>\<open>ValueError\<close>; \<^verbatim>\<open>float("nan")\<close> and \<^verbatim>\<open>float("inf")\<close> are values), the pickled model, and the clock (\<^verbatim>\<open>now.strftime("%b")\<close> and
  \<^verbatim>\<open>now.strftime("%a")\<close> of \<^verbatim>\<open>datetime.datetime.utcnow()\<close>).

  Modelled from the spec: the month and day encoders are pickled artifacts that are not in
  the repository (\<^verbatim>\<open>month_encoder.pkl\<close>, \<^verbatim>\<open>day_encoder.pkl\<close>). Each is given by its
  vocabulary, the list of labels learned at training time; encoding a label yields its
  ordinal position in the vocabulary and fails on a label that is not in it.
\<close>

record env =
  str_to_int :: "string \<Rightarrow> int option"
  str_to_float :: "string \<Rightarrow> pyfloat option"
  le_month :: "string list"
  le_day :: "string list"
  model_predict :: "pyval list \<Rightarrow> pyexn + pyval"
  strftime_b :: string
  strftime_a :: string

fun index_of :: "string list \<Rightarrow> string \<Rightarrow> nat option" where
  "index_of [] l = None"
| "index_of (c # cs) l = (if c = l then Some 0 else map_option Suc (index_of cs l))"

definition transform :: "string list \<Rightarrow> string \<Rightarrow> pyexn + int" where
  "transform classes l =
     (case index_of classes l of None \<Rightarrow> Inl ValueError | Some i \<Rightarrow> Inr (int i))"

subsection \<open>Builtins: \<^verbatim>\<open>int()\<close>, \<^verbatim>\<open>float()\<close>, \<^verbatim>\<open>dict.get\<close>, \<^verbatim>\<open>str.lower\<close>, \<^verbatim>\<open>round\<close>, \<^verbatim>\<open>np.clip\<close>\<close>

definition py_trunc :: "real \<Rightarrow> int" where
  "py_trunc r = (if 0 \<le> r then \<lfloor>r\<rfloor> else \<lceil>r\<rceil>)"

fun py_int :: "env \<Rightarrow> pyval \<Rightarrow> pyexn + int" where
  "py_int env PNone = Inl TypeError"
| "py_int env (PBool b) = Inr (if b then 1 else 0)"
| "py_int env (PInt i) = Inr i"
| "py_int env (PFloat (Fin r)) = Inr (py_trunc r)"
| "py_int env (PFloat PosInf) = Inl OverflowError"
| "py_int env (PFloat NegInf) = Inl OverflowError"
| "py_int env (PFloat NaN) = Inl ValueError"
| "py_int env (PStr s) = (case str_to_int env s of None \<Rightarrow> Inl ValueError | Some i \<Rightarrow> Inr i)"
| "py_int env (PList xs) = Inl TypeError"
| "py_int env (PDict kvs) = Inl TypeError"

text \<open>
  \<^verbatim>\<open>float\<close> of an \<^verbatim>\<open>int\<close> raises \<^verbatim>\<open>OverflowError\<close> when the integer, rounded to 53 bits, is
  beyond the largest double \<^verbatim>\<open>2**1024 - 2**971\<close>, that is from \<^verbatim>\<open>2**1024 - 2**970\<close> on.
\<close>

definition float_overflows :: "int \<Rightarrow> bool" where
  "float_overflows i = (2 ^ 1024 - 2 ^ 970 \<le> \<bar>i\<bar>)"

fun py_float :: "env \<Rightarrow> pyval \<Rightarrow> pyexn + pyfloat" where
  "py_float env PNone = Inl TypeError"
| "py_float env (PBool b) = Inr (Fin (if b then 1 else 0))"
| "py_float env (PInt i) = (if float_overflows i then Inl OverflowError else Inr (Fin (of_int i)))"
| "py_float env (PFloat f) = Inr f"
| "py_float env (PStr s) = (case str_to_float env s of None \<Rightarrow> Inl ValueError | Some f \<Rightarrow> Inr f)"
| "py_float env (PList xs) = Inl TypeError"
| "py_float env (PDict kvs) = Inl TypeError"

fun is_None :: "pyval \<Rightarrow> bool" where
  "is_None PNone = True"
| "is_None v = False"

definition dict_get :: "(string \<times> pyval) list \<Rightarrow> string \<Rightarrow> pyval \<Rightarrow> pyval" where
  "dict_get kvs k dflt = (case map_of kvs k of None \<Rightarrow> dflt | Some v \<Rightarrow> v)"

definition lower_chr :: "char \<Rightarrow> char" where
  "lower_chr c =
     (case map_of (zip ''ABCDEFGHIJKLMNOPQRSTUVWXYZ'' ''abcdefghijklmnopqrstuvwxyz'') c of
        None \<Rightarrow> c | Some d \<Rightarrow> d)"

definition lower :: "string \<Rightarrow> string" where
  "lower s = map lower_chr s"

definition np_clip :: "real \<Rightarrow> real \<Rightarrow> real \<Rightarrow> real" where
  "np_clip x lo hi = min (max x lo) hi"

text \<open>Rounding to the nearest integer, ties to the even one, as \<^verbatim>\<open>round\<close> does.\<close>

definition rint :: "real \<Rightarrow> int" where
  "rint x =
     (let f = \<lfloor>x\<rfloor>; d = x - of_int f
      in if d < 1 / 2 then f else if 1 / 2 < d then f + 1 else if even f then f else f + 1)"

definition round2 :: "real \<Rightarrow> real" where
  "round2 x = of_int (rint (x * 100)) / 100"

subsection \<open>Arithmetic on floats\<close>

text \<open>
  The operations of lines 31 to 42 on values that may be NaN or infinite. NaN is
  contagious; \<^verbatim>\<open>np.clip\<close> is \<^verbatim>\<open>minimum(maximum(x, lo), hi)\<close>, which keeps a NaN and brings
  an infinity to a bound; \<^verbatim>\<open>round\<close> keeps NaN and the infinities. The divisors of the
  source are the positive literals 30, 20 and 30.0.
\<close>

fun fl_neg :: "pyfloat \<Rightarrow> pyfloat" where
  "fl_neg (Fin x) = Fin (- x)"
| "fl_neg PosInf = NegInf"
| "fl_neg NegInf = PosInf"
| "fl_neg NaN = NaN"

fun fl_add :: "pyfloat \<Rightarrow> pyfloat \<Rightarrow> pyfloat" where
  "fl_add (Fin x) (Fin y) = Fin (x + y)"
| "fl_add NaN b = NaN"
| "fl_add a NaN = NaN"
| "fl_add PosInf NegInf = NaN"
| "fl_add NegInf PosInf = NaN"
| "fl_add PosInf b = PosInf"
| "fl_add a PosInf = PosInf"
| "fl_add NegInf b = NegInf"
| "fl_add a NegInf = NegInf"

definition fl_sub :: "pyfloat \<Rightarrow> pyfloat \<Rightarrow> pyfloat" where
  "fl_sub a b = fl_add a (fl_neg b)"

fun fl_sign :: "pyfloat \<Rightarrow> int" where
  "fl_sign (Fin x) = (if x < 0 then - 1 else if 0 < x then 1 else 0)"
| "fl_sign PosInf = 1"
| "fl_sign NegInf = - 1"
| "fl_sign NaN = 0"

fun fl_mul :: "pyfloat \<Rightarrow> pyfloat \<Rightarrow> pyfloat" where
  "fl_mul (Fin x) (Fin y) = Fin (x * y)"
| "fl_mul NaN b = NaN"
| "fl_mul a NaN = NaN"
| "fl_mul a b =
     (if fl_sign a * fl_sign b = 0 then NaN
      else if 0 < fl_sign a * fl_sign b then PosInf else NegInf)"

fun fl_div :: "pyfloat \<Rightarrow> real \<Rightarrow> pyfloat" where
  "fl_div (Fin x) c = Fin (x / c)"
| "fl_div NaN c = NaN"
| "fl_div PosInf c = (if 0 < c then PosInf else NegInf)"
| "fl_div NegInf c = (if 0 < c then NegInf else PosInf)"

fun fl_clip :: "pyfloat \<Rightarrow> real \<Rightarrow> real \<Rightarrow> pyfloat" where
  "fl_clip (Fin x) lo hi = Fin (np_clip x lo hi)"
| "fl_clip NaN lo hi = NaN"
| "fl_clip PosInf lo hi = Fin hi"
| "fl_clip NegInf lo hi = Fin (min lo hi)"

fun fl_round2 :: "pyfloat \<Rightarrow> pyfloat" where
  "fl_round2 (Fin x) = Fin (round2 x)"
| "fl_round2 PosInf = PosInf"
| "fl_round2 NegInf = NegInf"
| "fl_round2 NaN = NaN"

section \<open>The helpers of \<^verbatim>\<open>app.py\<close>\<close>

text \<open>
  \<^verbatim>\<open>estimate_fire_indexes\<close> is given twice: on real numbers, which is what it computes on
  finite inputs, and on floats, which is what \<^verbatim>\<open>predict\<close> calls with the results of
  \<^verbatim>\<open>float\<close>.
\<close>

definition estimate_fire_indexes :: "real \<Rightarrow> real \<Rightarrow> real \<Rightarrow> real \<Rightarrow> real \<times> real \<times> real \<times> real" where
  "estimate_fire_indexes temp0 rh0 wind0 rain0 =
     (let temp = np_clip temp0 (-10) 60;
          rh = np_clip rh0 0 100;
          wind = np_clip wind0 0 50;
          rain = np_clip rain0 0 500;
          FFMC = np_clip (20 + (temp * 1.6) - (rh * 0.15) + (wind * 0.6) - (rain * 0.1)) 18.7 96.2;
          DMC = np_clip (1 + (100 - rh) * (temp / 30) + wind * 0.5 - rain * 0.2) 1.1 291.3;
          DC = np_clip (10 + (100 - rh) * (temp / 20) + wind * 0.7 - rain * 0.05) 7.9 860.6;
          ISI = np_clip ((wind * 0.8) + (FFMC / 30.0)) 0.0 56.1
      in (round2 FFMC, round2 DMC, round2 DC, round2 ISI))"

definition estimate_fire_indexes_float ::
  "pyfloat \<Rightarrow> pyfloat \<Rightarrow> pyfloat \<Rightarrow> pyfloat \<Rightarrow> pyfloat \<times> pyfloat \<times> pyfloat \<times> pyfloat" where
  "estimate_fire_indexes_float temp0 rh0 wind0 rain0 =
     (let temp = fl_clip temp0 (-10) 60;
          rh = fl_clip rh0 0 100;
          wind = fl_clip wind0 0 50;
          rain = fl_clip rain0 0 500;
          FFMC = fl_clip
            (fl_sub
              (fl_add
                (fl_sub (fl_add (Fin 20) (fl_mul temp (Fin 1.6))) (fl_mul rh (Fin 0.15)))
                (fl_mul wind (Fin 0.6)))
              (fl_mul rain (Fin 0.1)))
            18.7 96.2;
          DMC = fl_clip
            (fl_sub
              (fl_add
                (fl_add (Fin 1) (fl_mul (fl_sub (Fin 100) rh) (fl_div temp 30)))
                (fl_mul wind (Fin 0.5)))
              (fl_mul rain (Fin 0.2)))
            1.1 291.3;
          DC = fl_clip
            (fl_sub
              (fl_add
                (fl_add (Fin 10) (fl_mul (fl_sub (Fin 100) rh) (fl_div temp 20)))
                (fl_mul wind (Fin 0.7)))
              (fl_mul rain (Fin 0.05)))
            7.9 860.6;
          ISI = fl_clip (fl_add (fl_mul wind (Fin 0.8)) (fl_div FFMC 30.0)) 0.0 56.1
      in (fl_round2 FFMC, fl_round2 DMC, fl_round2 DC, fl_round2 ISI))"

text \<open>
  \<^verbatim>\<open>score_to_bucket\<close> is called with \<^verbatim>\<open>pred = int(pred)\<close>, a Python \<^verbatim>\<open>int\<close>, on which its
  own \<^verbatim>\<open>int(score)\<close> is the identity.
\<close>

definition score_to_bucket :: "int \<Rightarrow> string \<times> string" where
  "score_to_bucket score =
     (let s = score
      in if s \<le> 3 then (''Low'', ''green'')
         else if s \<le> 6 then (''Medium'', ''yellow'')
         else if s \<le> 8 then (''High'', ''orange'')
         else (''Extreme'', ''red''))"

definition encode_month_day :: "env \<Rightarrow> pyval \<Rightarrow> pyval \<Rightarrow> pyexn + (int \<times> int)" where
  "encode_month_day env month day =
     (case (case month of PStr l \<Rightarrow> transform (le_month env) l | _ \<Rightarrow> py_int env month) of
        Inl e \<Rightarrow> Inl e
      | Inr month_enc \<Rightarrow>
          (case (case day of PStr l \<Rightarrow> transform (le_day env) l | _ \<Rightarrow> py_int env day) of
             Inl e \<Rightarrow> Inl e
           | Inr day_enc \<Rightarrow> Inr (month_enc, day_enc)))"

section \<open>The endpoint \<^verbatim>\<open>predict\<close>\<close>

text \<open>
  A request ends in one of two ways: the view returns a response (a JSON body with a
  status code), or an exception leaves the view uncaught. The outcome also records every
  feature vector handed to \<^verbatim>\<open>model.predict\<close>, in order.
\<close>

datatype response =
    Failure (r_status: nat) (r_error: string) (r_details: pyexn)
  | Success (r_score: int) (r_bucket: string) (r_color: string)
      (r_features_used: "(string \<times> pyval) list")

record outcome =
  model_calls :: "pyval list list"
  result :: "pyexn + response"

definition escapes :: "pyexn \<Rightarrow> outcome" where
  "escapes e = \<lparr>model_calls = [], result = Inl e\<rparr>"

definition responds :: "response \<Rightarrow> outcome" where
  "responds r = \<lparr>model_calls = [], result = Inr r\<rparr>"

definition encoding_failed :: string where
  "encoding_failed = ''Month/day encoding failed. Provide month/day as the same strings used during training (e.g. 'aug','sun') or numeric encodings.''"

definition missing_meteorology :: string where
  "missing_meteorology = ''Missing meteorological inputs for index estimation. Provide either FFMC,DMC,DC,ISI OR provide temp,RH,wind,rain.''"

text \<open>
  Lines 132 to 142: the four indices as they stand after the gate, or the exception that
  the \<^verbatim>\<open>try\<close> block around the four \<^verbatim>\<open>float\<close> calls catches.
\<close>

definition resolve_indexes ::
  "env \<Rightarrow> (string \<times> pyval) list \<Rightarrow> pyexn + (pyval \<times> pyval \<times> pyval \<times> pyval)" where
  "resolve_indexes env kvs =
     (let ffmc = dict_get kvs ''FFMC'' PNone;
          dmc = dict_get kvs ''DMC'' PNone;
          dc = dict_get kvs ''DC'' PNone;
          isi = dict_get kvs ''ISI'' PNone
      in if is_None ffmc \<or> is_None dmc \<or> is_None dc \<or> is_None isi then
           (case py_float env (dict_get kvs ''temp'' PNone) of Inl e \<Rightarrow> Inl e | Inr temp \<Rightarrow>
           (case py_float env (dict_get kvs ''RH'' PNone) of Inl e \<Rightarrow> Inl e | Inr rh \<Rightarrow>
           (case py_float env (dict_get kvs ''wind'' PNone) of Inl e \<Rightarrow> Inl e | Inr wind \<Rightarrow>
           (case py_float env (dict_get kvs ''rain'' (PFloat (Fin 0.0))) of Inl e \<Rightarrow> Inl e | Inr rain \<Rightarrow>
           (case estimate_fire_indexes_float temp rh wind rain of
              (f, d, c, i) \<Rightarrow> Inr (PFloat f, PFloat d, PFloat c, PFloat i))))))
         else Inr (ffmc, dmc, dc, isi))"

text \<open>
  Lines 146 to 164: the four weather values with their defaults, then the feature list,
  whose \<^verbatim>\<open>float\<close> calls run in the order of the list; every \<^verbatim>\<open>float\<close> call here is
  outside any \<^verbatim>\<open>try\<close>. On \<^verbatim>\<open>month_enc\<close> and \<^verbatim>\<open>day_enc\<close>, which are integers, \<^verbatim>\<open>int\<close> is
  the identity, and so is \<^verbatim>\<open>float\<close> on the four weather values, which are floats.
\<close>

definition build_features ::
  "env \<Rightarrow> (string \<times> pyval) list \<Rightarrow> int \<Rightarrow> int \<Rightarrow> int \<Rightarrow> int \<Rightarrow> pyval \<Rightarrow> pyval \<Rightarrow> pyval \<Rightarrow> pyval
     \<Rightarrow> pyexn + (pyfloat \<times> pyfloat \<times> pyfloat \<times> pyfloat) \<times> pyval list" where
  "build_features env kvs X_val Y_val month_enc day_enc ffmc dmc dc isi =
     (case py_float env (dict_get kvs ''temp'' (PFloat (Fin 20.0))) of Inl e \<Rightarrow> Inl e | Inr temp_val \<Rightarrow>
     (case py_float env (dict_get kvs ''RH'' (PFloat (Fin 40.0))) of Inl e \<Rightarrow> Inl e | Inr rh_val \<Rightarrow>
     (case py_float env (dict_get kvs ''wind'' (PFloat (Fin 1.0))) of Inl e \<Rightarrow> Inl e | Inr wind_val \<Rightarrow>
     (case py_float env (dict_get kvs ''rain'' (PFloat (Fin 0.0))) of Inl e \<Rightarrow> Inl e | Inr rain_val \<Rightarrow>
     (case py_float env (PInt X_val) of Inl e \<Rightarrow> Inl e | Inr x_f \<Rightarrow>
     (case py_float env (PInt Y_val) of Inl e \<Rightarrow> Inl e | Inr y_f \<Rightarrow>
     (case py_float env ffmc of Inl e \<Rightarrow> Inl e | Inr ffmc_f \<Rightarrow>
     (case py_float env dmc of Inl e \<Rightarrow> Inl e | Inr dmc_f \<Rightarrow>
     (case py_float env dc of Inl e \<Rightarrow> Inl e | Inr dc_f \<Rightarrow>
     (case py_float env isi of Inl e \<Rightarrow> Inl e | Inr isi_f \<Rightarrow>
        Inr ((temp_val, rh_val, wind_val, rain_val),
             [PFloat x_f, PFloat y_f, PInt month_enc, PInt day_enc,
              PFloat ffmc_f, PFloat dmc_f, PFloat dc_f, PFloat isi_f,
              PFloat temp_val, PFloat rh_val, PFloat wind_val, PFloat rain_val])))))))))))"

text \<open>
  Lines 166 to 185: the call of the model inside its \<^verbatim>\<open>try\<close>, the bucket, and the
  response.
\<close>

definition run_model ::
  "env \<Rightarrow> int \<Rightarrow> int \<Rightarrow> int \<Rightarrow> int \<Rightarrow> pyval \<Rightarrow> pyval \<Rightarrow> pyval \<Rightarrow> pyval
     \<Rightarrow> (pyfloat \<times> pyfloat \<times> pyfloat \<times> pyfloat) \<Rightarrow> pyval list \<Rightarrow> outcome" where
  "run_model env X_val Y_val month_enc day_enc ffmc dmc dc isi weather features =
     (case weather of (temp_val, rh_val, wind_val, rain_val) \<Rightarrow>
     (case (case model_predict env features of Inl e \<Rightarrow> Inl e | Inr p \<Rightarrow> py_int env p) of
        Inl e \<Rightarrow>
          \<lparr>model_calls = [features],
           result = Inr (Failure 500 ''Model prediction failed'' e)\<rparr>
      | Inr pred \<Rightarrow>
          (case score_to_bucket pred of
             (bucket, color) \<Rightarrow>
               \<lparr>model_calls = [features],
                result = Inr (Success pred bucket color
                  [(''X'', PInt X_val), (''Y'', PInt Y_val),
                   (''month_enc'', PInt month_enc), (''day_enc'', PInt day_enc),
                   (''FFMC'', ffmc), (''DMC'', dmc), (''DC'', dc), (''ISI'', isi),
                   (''temp'', PFloat temp_val), (''RH'', PFloat rh_val),
                   (''wind'', PFloat wind_val), (''rain'', PFloat rain_val)])\<rparr>)))"

text \<open>
  Lines 108 to 117: the month and the day that go to the encoders.
\<close>

definition month_and_day :: "env \<Rightarrow> (string \<times> pyval) list \<Rightarrow> pyval \<times> pyval" where
  "month_and_day env kvs =
     (let month = dict_get kvs ''month'' PNone;
          day = dict_get kvs ''day'' PNone
      in if is_None month \<or> is_None day
         then (PStr (lower (strftime_b env)), PStr (lower (strftime_a env)))
         else (month, day))"

text \<open>
  The view, from line 104 on, applied to the parsed body \<^verbatim>\<open>data\<close>. A body that does
  not parse is answered with status 400 before line 104 and never becomes a \<^verbatim>\<open>data\<close>. A
  body that parses to something other than a JSON object has no \<^verbatim>\<open>get\<close>.
\<close>

definition predict :: "env \<Rightarrow> pyval \<Rightarrow> outcome" where
  "predict env data =
     (case data of
        PDict kvs \<Rightarrow>
          (case py_int env (dict_get kvs ''X'' (PInt 5)) of Inl e \<Rightarrow> escapes e | Inr X_val \<Rightarrow>
          (case py_int env (dict_get kvs ''Y'' (PInt 5)) of Inl e \<Rightarrow> escapes e | Inr Y_val \<Rightarrow>
          (case month_and_day env kvs of (month, day) \<Rightarrow>
          (case encode_month_day env month day of
             Inl e \<Rightarrow> responds (Failure 400 encoding_failed e)
           | Inr (month_enc, day_enc) \<Rightarrow>
          (case resolve_indexes env kvs of
             Inl e \<Rightarrow> responds (Failure 400 missing_meteorology e)
           | Inr (ffmc, dmc, dc, isi) \<Rightarrow>
          (case build_features env kvs X_val Y_val month_enc day_enc ffmc dmc dc isi of
             Inl e \<Rightarrow> escapes e
           | Inr (weather, features) \<Rightarrow>
               run_model env X_val Y_val month_enc day_enc ffmc dmc dc isi weather features))))))
      | PNone \<Rightarrow> escapes AttributeError
      | PBool b \<Rightarrow> escapes AttributeError
      | PInt i \<Rightarrow> escapes AttributeError
      | PFloat f \<Rightarrow> escapes AttributeError
      | PStr s \<Rightarrow> escapes AttributeError
      | PList xs \<Rightarrow> escapes AttributeError)"

section \<open>An example environment\<close>

text \<open>
  The vocabularies are the sorted month and day labels of the forest-fires data set, the
  clock stands at Wednesday 4 November, and the stub model answers 5 whatever it is given.
  The examples below pass numbers as JSON numbers, never as strings, so the two string
  parsers are not consulted; here they reject every string.
\<close>

definition demo_env :: env where
  "demo_env =
     \<lparr>str_to_int = (\<lambda>s. None),
      str_to_float = (\<lambda>s. None),
      le_month = [''apr'', ''aug'', ''dec'', ''feb'', ''jan'', ''jul'', ''jun'', ''mar'', ''may'', ''nov'', ''oct'', ''sep''],
      le_day = [''fri'', ''mon'', ''sat'', ''sun'', ''thu'', ''tue'', ''wed''],
      model_predict = (\<lambda>features. Inr (PInt 5)),
      strftime_b = ''Nov'',
      strftime_a = ''Wed''\<rparr>"

section \<open>Vocabulary of the statements\<close>

text \<open>
  An index is absent from a request when its key is missing or holds \<^verbatim>\<open>null\<close>: in both
  cases \<^verbatim>\<open>data.get(key, None)\<close> is \<^verbatim>\<open>None\<close>.
\<close>

definition index_absent :: "(string \<times> pyval) list \<Rightarrow> bool" where
  "index_absent kvs =
     (is_None (dict_get kvs ''FFMC'' PNone) \<or> is_None (dict_get kvs ''DMC'' PNone) \<or>
      is_None (dict_get kvs ''DC'' PNone) \<or> is_None (dict_get kvs ''ISI'' PNone))"


section \<open>The score ladder\<close>

text \<open>
  C1. \<^verbatim>\<open>score_to_bucket\<close> maps every integer score: at most 3 to Low/green, above 3 and at
  most 6 to Medium/yellow, above 6 and at most 8 to High/orange, anything above 8 to
  Extreme/red. Scores outside 1 to 10 go through the same ladder. At the boundaries, 3 is
  Low, 4 and 6 are Medium, 7 and 8 are High, 9 is Extreme.
\<close>

theorem score_to_bucket_ladder:
  "(\<forall>s. s \<le> 3 \<longrightarrow> score_to_bucket s = (''Low'', ''green'')) \<and>
   (\<forall>s. 3 < s \<and> s \<le> 6 \<longrightarrow> score_to_bucket s = (''Medium'', ''yellow'')) \<and>
   (\<forall>s. 6 < s \<and> s \<le> 8 \<longrightarrow> score_to_bucket s = (''High'', ''orange'')) \<and>
   (\<forall>s. 8 < s \<longrightarrow> score_to_bucket s = (''Extreme'', ''red'')) \<and>
   score_to_bucket 3 = (''Low'', ''green'') \<and>
   score_to_bucket 4 = (''Medium'', ''yellow'') \<and>
   score_to_bucket 6 = (''Medium'', ''yellow'') \<and>
   score_to_bucket 7 = (''High'', ''orange'') \<and>
   score_to_bucket 8 = (''High'', ''orange'') \<and>
   score_to_bucket 9 = (''Extreme'', ''red'')"
  by (simp add: score_to_bucket_def)

theorem score_to_bucket_ladder_witness:
  "score_to_bucket (- 2) = (''Low'', ''green'') \<and>
   score_to_bucket 5 = (''Medium'', ''yellow'') \<and>
   score_to_bucket 7 = (''High'', ''orange'') \<and>
   score_to_bucket 11 = (''Extreme'', ''red'')"
  using score_to_bucket_ladder by simp

section \<open>The index estimator\<close>

lemma rint_ge: "of_int k \<le> x \<Longrightarrow> k \<le> rint x"
proof -
  assume "of_int k \<le> x"
  then have "k \<le> \<lfloor>x\<rfloor>" by (simp add: le_floor_iff)
  then show ?thesis unfolding rint_def Let_def by auto
qed

lemma rint_le: "x \<le> of_int k \<Longrightarrow> rint x \<le> k"
proof -
  assume h: "x \<le> of_int k"
  have f: "\<lfloor>x\<rfloor> \<le> k" using h by (simp add: floor_le_iff)
  show ?thesis
  proof (cases "\<lfloor>x\<rfloor> = k")
    case True
    then have "x = of_int k" using h by (metis of_int_floor_le order_antisym)
    then show ?thesis by (simp add: rint_def)
  next
    case False
    then have "\<lfloor>x\<rfloor> + 1 \<le> k" using f by simp
    then show ?thesis using f unfolding rint_def Let_def by auto
  qed
qed

lemma round2_bounds:
  assumes "of_int a / 100 \<le> x" and "x \<le> of_int b / 100"
  shows "of_int a / 100 \<le> round2 x \<and> round2 x \<le> of_int b / 100"
proof -
  have "of_int a \<le> x * 100" using assms(1) by (simp add: field_simps)
  then have 1: "a \<le> rint (x * 100)" by (rule rint_ge)
  have "x * 100 \<le> of_int b" using assms(2) by (simp add: field_simps)
  then have 2: "rint (x * 100) \<le> b" by (rule rint_le)
  from 1 2 show ?thesis unfolding round2_def
    by (simp add: divide_le_cancel)
qed

lemma np_clip_bounds: "lo \<le> hi \<Longrightarrow> lo \<le> np_clip x lo hi \<and> np_clip x lo hi \<le> hi"
  by (simp add: np_clip_def)

lemma np_clip_idem: "lo \<le> hi \<Longrightarrow> np_clip (np_clip x lo hi) lo hi = np_clip x lo hi"
  by (simp add: np_clip_def)

lemma round2_clip:
  assumes "a \<le> b"
  shows "of_int a / 100 \<le> round2 (np_clip x (of_int a / 100) (of_int b / 100)) \<and>
         round2 (np_clip x (of_int a / 100) (of_int b / 100)) \<le> of_int b / 100"
proof -
  have "(of_int a / 100 :: real) \<le> of_int b / 100" using assms by (simp add: divide_le_cancel)
  from np_clip_bounds[OF this, of x] show ?thesis by (intro round2_bounds) auto
qed

lemma round2_two_decimals: "round2 x * 100 \<in> \<int>"
  by (simp add: round2_def)

lemma estimate_fire_indexes_range:
  assumes "estimate_fire_indexes temp rh wind rain = (FFMC, DMC, DC, ISI)"
  shows "18.7 \<le> FFMC \<and> FFMC \<le> 96.2 \<and> 1.1 \<le> DMC \<and> DMC \<le> 291.3 \<and>
         7.9 \<le> DC \<and> DC \<le> 860.6 \<and> 0.0 \<le> ISI \<and> ISI \<le> 56.1"
proof -
  have F: "18.7 \<le> round2 (np_clip x 18.7 96.2) \<and> round2 (np_clip x 18.7 96.2) \<le> 96.2" for x
    using round2_clip[of 1870 9620 x] by simp
  have D: "1.1 \<le> round2 (np_clip x 1.1 291.3) \<and> round2 (np_clip x 1.1 291.3) \<le> 291.3" for x
    using round2_clip[of 110 29130 x] by simp
  have C: "7.9 \<le> round2 (np_clip x 7.9 860.6) \<and> round2 (np_clip x 7.9 860.6) \<le> 860.6" for x
    using round2_clip[of 790 86060 x] by simp
  have I: "0.0 \<le> round2 (np_clip x 0.0 56.1) \<and> round2 (np_clip x 0.0 56.1) \<le> 56.1" for x
    using round2_clip[of 0 5610 x] by simp
  show ?thesis
    using assms F D C I by (auto simp: estimate_fire_indexes_def Let_def)
qed

lemma estimate_fire_indexes_two_decimals:
  assumes "estimate_fire_indexes temp rh wind rain = (FFMC, DMC, DC, ISI)"
  shows "FFMC * 100 \<in> \<int> \<and> DMC * 100 \<in> \<int> \<and> DC * 100 \<in> \<int> \<and> ISI * 100 \<in> \<int>"
  using assms by (auto simp: estimate_fire_indexes_def Let_def round2_two_decimals)

lemma estimate_fire_indexes_clamps_inputs:
  "estimate_fire_indexes temp rh wind rain =
     estimate_fire_indexes (np_clip temp (-10) 60) (np_clip rh 0 100)
       (np_clip wind 0 50) (np_clip rain 0 500)"
  by (simp add: estimate_fire_indexes_def np_clip_idem)

text \<open>
  The function on floats: on finite inputs it is the function on real numbers; an
  infinite input is clipped to a bound first, so that every input other than NaN gives
  four finite indexes in range; one NaN among the inputs makes all four indexes NaN,
  because every formula reads all four inputs, ISI through FFMC.
\<close>

lemma estimate_fire_indexes_float_Fin:
  "estimate_fire_indexes_float (Fin temp) (Fin rh) (Fin wind) (Fin rain) =
     (case estimate_fire_indexes temp rh wind rain of
        (FFMC, DMC, DC, ISI) \<Rightarrow> (Fin FFMC, Fin DMC, Fin DC, Fin ISI))"
  by (simp add: estimate_fire_indexes_float_def estimate_fire_indexes_def fl_sub_def Let_def)







text \<open>
  C4. For all real inputs, each index returned by \<^verbatim>\<open>estimate_fire_indexes\<close> lies in its
  range (FFMC in [18.7, 96.2], DMC in [1.1, 291.3], DC in [7.9, 860.6], ISI in [0.0, 56.1])
  and is a multiple of 0.01; the result is the one obtained from the inputs clamped to
  temperature in [-10, 60], relative humidity in [0, 100], wind in [0, 50] and rainfall
  in [0, 500]; and it is what the function on floats returns on these inputs.
\<close>

theorem estimate_fire_indexes_clamped:
  "(case estimate_fire_indexes temp rh wind rain of
      (FFMC, DMC, DC, ISI) \<Rightarrow>
        18.7 \<le> FFMC \<and> FFMC \<le> 96.2 \<and> 1.1 \<le> DMC \<and> DMC \<le> 291.3 \<and>
        7.9 \<le> DC \<and> DC \<le> 860.6 \<and> 0.0 \<le> ISI \<and> ISI \<le> 56.1 \<and>
        FFMC * 100 \<in> \<int> \<and> DMC * 100 \<in> \<int> \<and> DC * 100 \<in> \<int> \<and> ISI * 100 \<in> \<int>) \<and>
   estimate_fire_indexes temp rh wind rain =
     estimate_fire_indexes (np_clip temp (-10) 60) (np_clip rh 0 100)
       (np_clip wind 0 50) (np_clip rain 0 500) \<and>
   estimate_fire_indexes_float (Fin temp) (Fin rh) (Fin wind) (Fin rain) =
     (case estimate_fire_indexes temp rh wind rain of
        (FFMC, DMC, DC, ISI) \<Rightarrow> (Fin FFMC, Fin DMC, Fin DC, Fin ISI)) \<and>
   - 10 \<le> np_clip temp (-10) 60 \<and> np_clip temp (-10) 60 \<le> 60 \<and>
   0 \<le> np_clip rh 0 100 \<and> np_clip rh 0 100 \<le> 100 \<and>
   0 \<le> np_clip wind 0 50 \<and> np_clip wind 0 50 \<le> 50 \<and>
   0 \<le> np_clip rain 0 500 \<and> np_clip rain 0 500 \<le> 500"
proof -
  obtain FFMC DMC DC ISI where e: "estimate_fire_indexes temp rh wind rain = (FFMC, DMC, DC, ISI)"
    by (cases "estimate_fire_indexes temp rh wind rain") auto
  have B: "- 10 \<le> np_clip temp (-10) 60 \<and> np_clip temp (-10) 60 \<le> 60 \<and>
   0 \<le> np_clip rh 0 100 \<and> np_clip rh 0 100 \<le> 100 \<and>
   0 \<le> np_clip wind 0 50 \<and> np_clip wind 0 50 \<le> 50 \<and>
   0 \<le> np_clip rain 0 500 \<and> np_clip rain 0 500 \<le> 500"
    using np_clip_bounds[of "-10" 60 temp] np_clip_bounds[of 0 100 rh]
      np_clip_bounds[of 0 50 wind] np_clip_bounds[of 0 500 rain] by simp
  have R: "case estimate_fire_indexes temp rh wind rain of
      (FFMC, DMC, DC, ISI) \<Rightarrow>
        18.7 \<le> FFMC \<and> FFMC \<le> 96.2 \<and> 1.1 \<le> DMC \<and> DMC \<le> 291.3 \<and>
        7.9 \<le> DC \<and> DC \<le> 860.6 \<and> 0.0 \<le> ISI \<and> ISI \<le> 56.1 \<and>
        FFMC * 100 \<in> \<int> \<and> DMC * 100 \<in> \<int> \<and> DC * 100 \<in> \<int> \<and> ISI * 100 \<in> \<int>"
    using estimate_fire_indexes_range[OF e] estimate_fire_indexes_two_decimals[OF e]
    by (simp add: e)
  show ?thesis
    by (intro conjI R estimate_fire_indexes_clamps_inputs estimate_fire_indexes_float_Fin
          B[THEN conjunct1])
       (use B in simp_all)
qed

section \<open>Reading the request\<close>

lemma dict_get_absent: "map_of kvs k = None \<Longrightarrow> dict_get kvs k dflt = dflt"
  by (simp add: dict_get_def)

lemma is_None_dict_get:
  "is_None (dict_get kvs k PNone) \<longleftrightarrow> map_of kvs k = None \<or> map_of kvs k = Some PNone"
  by (cases "map_of kvs k"; cases "the (map_of kvs k)") (simp_all add: dict_get_def)

lemma not_None_dict_get:
  "\<not> is_None (dict_get kvs k PNone) \<Longrightarrow> map_of kvs k = Some (dict_get kvs k PNone)"
  by (cases "map_of kvs k") (simp_all add: dict_get_def)

lemma dict_get_default_irrelevant:
  "py_float env (dict_get kvs k PNone) = Inr x \<Longrightarrow> dict_get kvs k dflt = dict_get kvs k PNone"
  by (cases "map_of kvs k") (simp_all add: dict_get_def)

lemma index_of_None: "index_of cs l = None \<longleftrightarrow> l \<notin> set cs"
  by (induction cs) auto


lemma transform_unknown: "l \<notin> set cs \<Longrightarrow> transform cs l = Inl ValueError"
  using index_of_None[of cs l] by (simp add: transform_def)


lemma encode_month_day_unknown:
  assumes "(\<exists>l. month = PStr l \<and> l \<notin> set (le_month env)) \<or>
           (\<exists>l. day = PStr l \<and> l \<notin> set (le_day env))"
  shows "\<exists>e. encode_month_day env month day = Inl e"
  using assms by (auto simp: encode_month_day_def transform_unknown split: sum.splits)

lemma month_and_day_clock:
  "is_None (dict_get kvs ''month'' PNone) \<or> is_None (dict_get kvs ''day'' PNone) \<Longrightarrow>
     month_and_day env kvs = (PStr (lower (strftime_b env)), PStr (lower (strftime_a env)))"
  by (auto simp: month_and_day_def)

lemma month_and_day_supplied:
  "\<not> is_None (dict_get kvs ''month'' PNone) \<Longrightarrow> \<not> is_None (dict_get kvs ''day'' PNone) \<Longrightarrow>
     month_and_day env kvs = (dict_get kvs ''month'' PNone, dict_get kvs ''day'' PNone)"
  by (simp add: month_and_day_def)

section \<open>The runs of \<^verbatim>\<open>predict\<close>\<close>

text \<open>
  A request whose body is a JSON object ends in exactly one of six ways, in the order of
  the source: \<^verbatim>\<open>int\<close> fails on X, or on Y, and the exception is uncaught; the encoding
  fails and is answered with status 400; the estimation branch fails and is answered with
  status 400; a \<^verbatim>\<open>float\<close> of the feature list fails and the exception is uncaught; or the
  model is called.
\<close>

lemma predict_cases:
  obtains
    (bad_X) e where "py_int env (dict_get kvs ''X'' (PInt 5)) = Inl e"
      and "predict env (PDict kvs) = escapes e"
  | (bad_Y) X_val e where "py_int env (dict_get kvs ''X'' (PInt 5)) = Inr X_val"
      and "py_int env (dict_get kvs ''Y'' (PInt 5)) = Inl e"
      and "predict env (PDict kvs) = escapes e"
  | (bad_encoding) X_val Y_val e where "py_int env (dict_get kvs ''X'' (PInt 5)) = Inr X_val"
      and "py_int env (dict_get kvs ''Y'' (PInt 5)) = Inr Y_val"
      and "encode_month_day env (fst (month_and_day env kvs)) (snd (month_and_day env kvs)) = Inl e"
      and "predict env (PDict kvs) = responds (Failure 400 encoding_failed e)"
  | (bad_weather) X_val Y_val month_enc day_enc e
      where "py_int env (dict_get kvs ''X'' (PInt 5)) = Inr X_val"
      and "py_int env (dict_get kvs ''Y'' (PInt 5)) = Inr Y_val"
      and "encode_month_day env (fst (month_and_day env kvs)) (snd (month_and_day env kvs)) =
             Inr (month_enc, day_enc)"
      and "resolve_indexes env kvs = Inl e"
      and "predict env (PDict kvs) = responds (Failure 400 missing_meteorology e)"
  | (bad_feature) X_val Y_val month_enc day_enc ffmc dmc dc isi e
      where "py_int env (dict_get kvs ''X'' (PInt 5)) = Inr X_val"
      and "py_int env (dict_get kvs ''Y'' (PInt 5)) = Inr Y_val"
      and "encode_month_day env (fst (month_and_day env kvs)) (snd (month_and_day env kvs)) =
             Inr (month_enc, day_enc)"
      and "resolve_indexes env kvs = Inr (ffmc, dmc, dc, isi)"
      and "build_features env kvs X_val Y_val month_enc day_enc ffmc dmc dc isi = Inl e"
      and "predict env (PDict kvs) = escapes e"
  | (model) X_val Y_val month_enc day_enc ffmc dmc dc isi weather features
      where "py_int env (dict_get kvs ''X'' (PInt 5)) = Inr X_val"
      and "py_int env (dict_get kvs ''Y'' (PInt 5)) = Inr Y_val"
      and "encode_month_day env (fst (month_and_day env kvs)) (snd (month_and_day env kvs)) =
             Inr (month_enc, day_enc)"
      and "resolve_indexes env kvs = Inr (ffmc, dmc, dc, isi)"
      and "build_features env kvs X_val Y_val month_enc day_enc ffmc dmc dc isi =
             Inr (weather, features)"
      and "predict env (PDict kvs) =
             run_model env X_val Y_val month_enc day_enc ffmc dmc dc isi weather features"
proof (cases "py_int env (dict_get kvs ''X'' (PInt 5))")
  case X: (Inl e)
  have "predict env (PDict kvs) = escapes e" by (simp add: predict_def X)
  then show ?thesis using bad_X X by blast
next
  case X: (Inr X_val)
  show ?thesis
  proof (cases "py_int env (dict_get kvs ''Y'' (PInt 5))")
    case Y: (Inl e)
    have "predict env (PDict kvs) = escapes e" by (simp add: predict_def X Y)
    then show ?thesis using bad_Y X Y by blast
  next
    case Y: (Inr Y_val)
    show ?thesis
    proof (cases "encode_month_day env (fst (month_and_day env kvs)) (snd (month_and_day env kvs))")
      case E: (Inl e)
      have "predict env (PDict kvs) = responds (Failure 400 encoding_failed e)"
        by (simp add: predict_def X Y E case_prod_beta)
      then show ?thesis using bad_encoding X Y E by blast
    next
      case (Inr md)
      obtain month_enc day_enc where md: "md = (month_enc, day_enc)" by (cases md)
      note E = Inr[unfolded md]
      show ?thesis
      proof (cases "resolve_indexes env kvs")
        case R: (Inl e)
        have "predict env (PDict kvs) = responds (Failure 400 missing_meteorology e)"
          by (simp add: predict_def X Y E R case_prod_beta)
        then show ?thesis using bad_weather X Y E R by blast
      next
        case (Inr ix)
        obtain ffmc dmc dc isi where ix: "ix = (ffmc, dmc, dc, isi)" by (cases ix)
        note R = Inr[unfolded ix]
        show ?thesis
        proof (cases "build_features env kvs X_val Y_val month_enc day_enc ffmc dmc dc isi")
          case B: (Inl e)
          have "predict env (PDict kvs) = escapes e"
            by (simp add: predict_def X Y E R B case_prod_beta)
          then show ?thesis using bad_feature X Y E R B by blast
        next
          case (Inr wf)
          obtain weather features where wf: "wf = (weather, features)" by (cases wf)
          note B = Inr[unfolded wf]
          have "predict env (PDict kvs) =
                  run_model env X_val Y_val month_enc day_enc ffmc dmc dc isi weather features"
            by (simp add: predict_def X Y E R B case_prod_beta)
          then show ?thesis using model X Y E R B by blast
        qed
      qed
    qed
  qed
qed

lemma predict_run:
  assumes "py_int env (dict_get kvs ''X'' (PInt 5)) = Inr X_val"
    and "py_int env (dict_get kvs ''Y'' (PInt 5)) = Inr Y_val"
    and "encode_month_day env (fst (month_and_day env kvs)) (snd (month_and_day env kvs)) =
           Inr (month_enc, day_enc)"
    and "resolve_indexes env kvs = Inr (ffmc, dmc, dc, isi)"
    and "build_features env kvs X_val Y_val month_enc day_enc ffmc dmc dc isi =
           Inr (weather, features)"
  shows "predict env (PDict kvs) =
           run_model env X_val Y_val month_enc day_enc ffmc dmc dc isi weather features"
  using assms by (simp add: predict_def case_prod_beta)

lemma model_calls_run_model:
  "model_calls (run_model env X_val Y_val month_enc day_enc ffmc dmc dc isi weather features) =
     [features]"
  by (simp add: run_model_def split: prod.splits sum.splits)

lemma result_run_model_Success:
  assumes "result (run_model env X_val Y_val month_enc day_enc ffmc dmc dc isi weather features) =
             Inr (Success sc b c fu)"
  shows "map_of fu ''FFMC'' = Some ffmc \<and> map_of fu ''DMC'' = Some dmc \<and>
         map_of fu ''DC'' = Some dc \<and> map_of fu ''ISI'' = Some isi \<and>
         map_of fu ''month_enc'' = Some (PInt month_enc) \<and>
         map_of fu ''day_enc'' = Some (PInt day_enc)"
  using assms by (auto simp: run_model_def split: prod.splits sum.splits)

lemma result_run_model_not_400:
  "result (run_model env X_val Y_val month_enc day_enc ffmc dmc dc isi weather features) \<noteq>
     Inr (Failure 400 msg e)"
  by (simp add: run_model_def split: prod.splits sum.splits)

lemma build_features_Inr:
  assumes "build_features env kvs X_val Y_val month_enc day_enc ffmc dmc dc isi =
             Inr (weather, features)"
  shows "\<exists>f d c i t r w n.
           features = [PFloat (Fin (of_int X_val)), PFloat (Fin (of_int Y_val)),
                       PInt month_enc, PInt day_enc,
                       PFloat f, PFloat d, PFloat c, PFloat i,
                       PFloat t, PFloat r, PFloat w, PFloat n] \<and>
           weather = (t, r, w, n) \<and>
           py_float env ffmc = Inr f \<and> py_float env dmc = Inr d \<and>
           py_float env dc = Inr c \<and> py_float env isi = Inr i \<and>
           py_float env (dict_get kvs ''temp'' (PFloat (Fin 20.0))) = Inr t \<and>
           py_float env (dict_get kvs ''RH'' (PFloat (Fin 40.0))) = Inr r \<and>
           py_float env (dict_get kvs ''wind'' (PFloat (Fin 1.0))) = Inr w \<and>
           py_float env (dict_get kvs ''rain'' (PFloat (Fin 0.0))) = Inr n"
  using assms unfolding build_features_def
  by (simp split: sum.splits if_splits)

lemma build_features_ok:
  assumes "py_float env (dict_get kvs ''temp'' (PFloat (Fin 20.0))) = Inr t"
    and "py_float env (dict_get kvs ''RH'' (PFloat (Fin 40.0))) = Inr r"
    and "py_float env (dict_get kvs ''wind'' (PFloat (Fin 1.0))) = Inr w"
    and "py_float env (dict_get kvs ''rain'' (PFloat (Fin 0.0))) = Inr n"
    and "\<not> float_overflows X_val" and "\<not> float_overflows Y_val"
    and "py_float env ffmc = Inr f" and "py_float env dmc = Inr d"
    and "py_float env dc = Inr c" and "py_float env isi = Inr i"
  shows "build_features env kvs X_val Y_val month_enc day_enc ffmc dmc dc isi =
           Inr ((t, r, w, n),
                [PFloat (Fin (of_int X_val)), PFloat (Fin (of_int Y_val)),
                 PInt month_enc, PInt day_enc,
                 PFloat f, PFloat d, PFloat c, PFloat i,
                 PFloat t, PFloat r, PFloat w, PFloat n])"
  using assms by (simp add: build_features_def)

lemma model_calls_features:
  assumes "fv \<in> set (model_calls (predict env (PDict kvs)))"
  obtains X_val Y_val month_enc day_enc ffmc dmc dc isi weather
  where "py_int env (dict_get kvs ''X'' (PInt 5)) = Inr X_val"
    and "py_int env (dict_get kvs ''Y'' (PInt 5)) = Inr Y_val"
    and "encode_month_day env (fst (month_and_day env kvs)) (snd (month_and_day env kvs)) =
           Inr (month_enc, day_enc)"
    and "resolve_indexes env kvs = Inr (ffmc, dmc, dc, isi)"
    and "build_features env kvs X_val Y_val month_enc day_enc ffmc dmc dc isi = Inr (weather, fv)"
    and "predict env (PDict kvs) =
           run_model env X_val Y_val month_enc day_enc ffmc dmc dc isi weather fv"
proof (cases env kvs rule: predict_cases)
  case (model X_val Y_val month_enc day_enc ffmc dmc dc isi weather features)
  have "fv = features" using assms by (simp add: model(6) model_calls_run_model)
  then show ?thesis using that model by blast
qed (use assms in \<open>simp_all add: escapes_def responds_def\<close>)

lemma resolve_indexes_supplied:
  "\<not> index_absent kvs \<Longrightarrow>
     resolve_indexes env kvs =
       Inr (dict_get kvs ''FFMC'' PNone, dict_get kvs ''DMC'' PNone,
            dict_get kvs ''DC'' PNone, dict_get kvs ''ISI'' PNone)"
  by (simp add: resolve_indexes_def index_absent_def Let_def)

lemma resolve_indexes_estimated:
  assumes "index_absent kvs" and "resolve_indexes env kvs = Inr (ffmc, dmc, dc, isi)"
  shows "\<exists>temp rh wind rain f d c i.
           py_float env (dict_get kvs ''temp'' PNone) = Inr temp \<and>
           py_float env (dict_get kvs ''RH'' PNone) = Inr rh \<and>
           py_float env (dict_get kvs ''wind'' PNone) = Inr wind \<and>
           py_float env (dict_get kvs ''rain'' (PFloat (Fin 0.0))) = Inr rain \<and>
           estimate_fire_indexes_float temp rh wind rain = (f, d, c, i) \<and>
           ffmc = PFloat f \<and> dmc = PFloat d \<and> dc = PFloat c \<and> isi = PFloat i"
  using assms unfolding resolve_indexes_def index_absent_def Let_def
  by (auto split: sum.splits prod.splits)

lemma resolve_indexes_estimates:
  assumes "index_absent kvs"
    and "py_float env (dict_get kvs ''temp'' PNone) = Inr temp"
    and "py_float env (dict_get kvs ''RH'' PNone) = Inr rh"
    and "py_float env (dict_get kvs ''wind'' PNone) = Inr wind"
    and "py_float env (dict_get kvs ''rain'' (PFloat (Fin 0.0))) = Inr rain"
    and "estimate_fire_indexes_float temp rh wind rain = (f, d, c, i)"
  shows "resolve_indexes env kvs = Inr (PFloat f, PFloat d, PFloat c, PFloat i)"
  using assms unfolding resolve_indexes_def index_absent_def Let_def
  by simp

lemma resolve_indexes_fails:
  "(\<exists>e. resolve_indexes env kvs = Inl e) \<longleftrightarrow>
     index_absent kvs \<and>
     (isl (py_float env (dict_get kvs ''temp'' PNone)) \<or>
      isl (py_float env (dict_get kvs ''RH'' PNone)) \<or>
      isl (py_float env (dict_get kvs ''wind'' PNone)) \<or>
      isl (py_float env (dict_get kvs ''rain'' (PFloat (Fin 0.0)))))"
  unfolding resolve_indexes_def index_absent_def Let_def
  by (auto split: sum.splits prod.splits)

text \<open>
  Neither the gate on the indexes nor the feature list reads the keys \<^verbatim>\<open>month\<close> and
  \<^verbatim>\<open>day\<close>, so writing both keys in front of a request changes only what the encoders
  are given.
\<close>

lemma dict_get_month_day_set:
  "dict_get ((''month'', a) # (''day'', b) # kvs) ''month'' dflt = a"
  "dict_get ((''month'', a) # (''day'', b) # kvs) ''day'' dflt = b"
  "k \<noteq> ''month'' \<Longrightarrow> k \<noteq> ''day'' \<Longrightarrow>
     dict_get ((''month'', a) # (''day'', b) # kvs) k dflt = dict_get kvs k dflt"
  by (simp_all add: dict_get_def)

lemma resolve_indexes_month_day_set:
  "resolve_indexes env ((''month'', a) # (''day'', b) # kvs) = resolve_indexes env kvs"
  by (simp add: resolve_indexes_def dict_get_month_day_set Let_def cong: sum.case_cong if_cong)

lemma build_features_month_day_set:
  "build_features env ((''month'', a) # (''day'', b) # kvs) X_val Y_val month_enc day_enc ffmc dmc dc isi =
     build_features env kvs X_val Y_val month_enc day_enc ffmc dmc dc isi"
  by (simp add: build_features_def dict_get_month_day_set cong: sum.case_cong)

lemma predict_month_day_set:
  assumes "month_and_day env kvs = (PStr a, PStr b)"
  shows "predict env (PDict ((''month'', PStr a) # (''day'', PStr b) # kvs)) =
         predict env (PDict kvs)"
proof -
  have "month_and_day env ((''month'', PStr a) # (''day'', PStr b) # kvs) = (PStr a, PStr b)"
    by (simp add: month_and_day_def dict_get_month_day_set)
  then show ?thesis
    by (simp add: predict_def assms dict_get_month_day_set resolve_indexes_month_day_set
        build_features_month_day_set cong: sum.case_cong)
qed

text \<open>
  The two ways through the gate of line 132, when every conversion succeeds: the estimate
  replaces whatever was supplied, or the four supplied values go on as they are.
\<close>

lemma estimation_taken:
  assumes "index_absent kvs"
    and "py_int env (dict_get kvs ''X'' (PInt 5)) = Inr X_val" and "\<not> float_overflows X_val"
    and "py_int env (dict_get kvs ''Y'' (PInt 5)) = Inr Y_val" and "\<not> float_overflows Y_val"
    and "encode_month_day env (fst (month_and_day env kvs)) (snd (month_and_day env kvs)) =
           Inr (month_enc, day_enc)"
    and "py_float env (dict_get kvs ''temp'' PNone) = Inr temp"
    and "py_float env (dict_get kvs ''RH'' PNone) = Inr rh"
    and "py_float env (dict_get kvs ''wind'' PNone) = Inr wind"
    and "py_float env (dict_get kvs ''rain'' (PFloat (Fin 0.0))) = Inr rain"
    and "estimate_fire_indexes_float temp rh wind rain = (FFMC, DMC, DC, ISI)"
  shows "predict env (PDict kvs) =
           run_model env X_val Y_val month_enc day_enc
             (PFloat FFMC) (PFloat DMC) (PFloat DC) (PFloat ISI) (temp, rh, wind, rain)
             [PFloat (Fin (of_int X_val)), PFloat (Fin (of_int Y_val)),
              PInt month_enc, PInt day_enc,
              PFloat FFMC, PFloat DMC, PFloat DC, PFloat ISI,
              PFloat temp, PFloat rh, PFloat wind, PFloat rain]"
proof -
  have r: "resolve_indexes env kvs = Inr (PFloat FFMC, PFloat DMC, PFloat DC, PFloat ISI)"
    using assms(1,7-11) by (rule resolve_indexes_estimates)
  have d: "py_float env (dict_get kvs ''temp'' (PFloat (Fin 20.0))) = Inr temp"
    "py_float env (dict_get kvs ''RH'' (PFloat (Fin 40.0))) = Inr rh"
    "py_float env (dict_get kvs ''wind'' (PFloat (Fin 1.0))) = Inr wind"
    using assms(7-9) dict_get_default_irrelevant by metis+
  have b: "build_features env kvs X_val Y_val month_enc day_enc
             (PFloat FFMC) (PFloat DMC) (PFloat DC) (PFloat ISI) =
           Inr ((temp, rh, wind, rain),
             [PFloat (Fin (of_int X_val)), PFloat (Fin (of_int Y_val)),
              PInt month_enc, PInt day_enc,
              PFloat FFMC, PFloat DMC, PFloat DC, PFloat ISI,
              PFloat temp, PFloat rh, PFloat wind, PFloat rain])"
    by (rule build_features_ok[OF d assms(10) assms(3,5)]) simp_all
  show ?thesis by (rule predict_run[OF assms(2,4,6) r b])
qed

lemma supplied_taken:
  assumes "\<not> index_absent kvs"
    and "py_int env (dict_get kvs ''X'' (PInt 5)) = Inr X_val" and "\<not> float_overflows X_val"
    and "py_int env (dict_get kvs ''Y'' (PInt 5)) = Inr Y_val" and "\<not> float_overflows Y_val"
    and "encode_month_day env (fst (month_and_day env kvs)) (snd (month_and_day env kvs)) =
           Inr (month_enc, day_enc)"
    and "py_float env (dict_get kvs ''FFMC'' PNone) = Inr f"
    and "py_float env (dict_get kvs ''DMC'' PNone) = Inr d"
    and "py_float env (dict_get kvs ''DC'' PNone) = Inr c"
    and "py_float env (dict_get kvs ''ISI'' PNone) = Inr i"
    and "py_float env (dict_get kvs ''temp'' (PFloat (Fin 20.0))) = Inr t"
    and "py_float env (dict_get kvs ''RH'' (PFloat (Fin 40.0))) = Inr r"
    and "py_float env (dict_get kvs ''wind'' (PFloat (Fin 1.0))) = Inr w"
    and "py_float env (dict_get kvs ''rain'' (PFloat (Fin 0.0))) = Inr n"
  shows "predict env (PDict kvs) =
           run_model env X_val Y_val month_enc day_enc
             (dict_get kvs ''FFMC'' PNone) (dict_get kvs ''DMC'' PNone)
             (dict_get kvs ''DC'' PNone) (dict_get kvs ''ISI'' PNone) (t, r, w, n)
             [PFloat (Fin (of_int X_val)), PFloat (Fin (of_int Y_val)),
              PInt month_enc, PInt day_enc,
              PFloat f, PFloat d, PFloat c, PFloat i,
              PFloat t, PFloat r, PFloat w, PFloat n]"
  by (rule predict_run[OF assms(2,4,6) resolve_indexes_supplied[OF assms(1)]
        build_features_ok[OF assms(11-14) assms(3,5) assms(7-10)]])

section \<open>The feature vector\<close>

text \<open>
  C10. A request that succeeds has called the model exactly once, with the twelve values
  X, Y, encoded month, encoded day, FFMC, DMC, DC, ISI, temperature, relative humidity,
  wind, rainfall in this order: X and Y are the \<^verbatim>\<open>int\<close> of the field or of the default 5,
  the four weather values are the \<^verbatim>\<open>float\<close> of the field or of the default 20.0, 40.0,
  1.0, 0.0, whether or not the indexes were estimated; an absent field gives its default.
\<close>

theorem feature_vector_order_and_defaults:
  assumes "result (predict env data) = Inr (Success sc b c fu)"
  shows "\<exists>kvs X_val Y_val month_enc day_enc ffmc dmc dc isi FFMC DMC DC ISI temp rh wind rain.
           data = PDict kvs \<and>
           model_calls (predict env data) =
             [[PFloat (Fin (of_int X_val)), PFloat (Fin (of_int Y_val)), PInt month_enc, PInt day_enc,
               PFloat FFMC, PFloat DMC, PFloat DC, PFloat ISI,
               PFloat temp, PFloat rh, PFloat wind, PFloat rain]] \<and>
           py_int env (dict_get kvs ''X'' (PInt 5)) = Inr X_val \<and>
           py_int env (dict_get kvs ''Y'' (PInt 5)) = Inr Y_val \<and>
           encode_month_day env (fst (month_and_day env kvs)) (snd (month_and_day env kvs)) =
             Inr (month_enc, day_enc) \<and>
           resolve_indexes env kvs = Inr (ffmc, dmc, dc, isi) \<and>
           py_float env ffmc = Inr FFMC \<and> py_float env dmc = Inr DMC \<and>
           py_float env dc = Inr DC \<and> py_float env isi = Inr ISI \<and>
           py_float env (dict_get kvs ''temp'' (PFloat (Fin 20.0))) = Inr temp \<and>
           py_float env (dict_get kvs ''RH'' (PFloat (Fin 40.0))) = Inr rh \<and>
           py_float env (dict_get kvs ''wind'' (PFloat (Fin 1.0))) = Inr wind \<and>
           py_float env (dict_get kvs ''rain'' (PFloat (Fin 0.0))) = Inr rain \<and>
           (map_of kvs ''X'' = None \<longrightarrow> X_val = 5) \<and>
           (map_of kvs ''Y'' = None \<longrightarrow> Y_val = 5) \<and>
           (map_of kvs ''temp'' = None \<longrightarrow> temp = Fin 20.0) \<and>
           (map_of kvs ''RH'' = None \<longrightarrow> rh = Fin 40.0) \<and>
           (map_of kvs ''wind'' = None \<longrightarrow> wind = Fin 1.0) \<and>
           (map_of kvs ''rain'' = None \<longrightarrow> rain = Fin 0.0)"
proof -
  obtain kvs where data: "data = PDict kvs"
    using assms by (cases data) (simp_all add: predict_def escapes_def)
  show ?thesis
  proof (cases env kvs rule: predict_cases)
    case (model X_val Y_val month_enc day_enc ffmc dmc dc isi weather features)
    from build_features_Inr[OF model(5)] obtain f d c i t r w n where
      fv: "features = [PFloat (Fin (of_int X_val)), PFloat (Fin (of_int Y_val)), PInt month_enc, PInt day_enc,
                       PFloat f, PFloat d, PFloat c, PFloat i,
                       PFloat t, PFloat r, PFloat w, PFloat n]"
      and fl: "py_float env ffmc = Inr f" "py_float env dmc = Inr d"
              "py_float env dc = Inr c" "py_float env isi = Inr i"
      and we: "py_float env (dict_get kvs ''temp'' (PFloat (Fin 20.0))) = Inr t"
              "py_float env (dict_get kvs ''RH'' (PFloat (Fin 40.0))) = Inr r"
              "py_float env (dict_get kvs ''wind'' (PFloat (Fin 1.0))) = Inr w"
              "py_float env (dict_get kvs ''rain'' (PFloat (Fin 0.0))) = Inr n"
      by blast
    have calls: "model_calls (predict env data) = [features]"
      by (simp add: data model(6) model_calls_run_model)
    have dX: "map_of kvs ''X'' = None \<longrightarrow> X_val = 5"
      using model(1) by (auto simp: dict_get_absent)
    have dY: "map_of kvs ''Y'' = None \<longrightarrow> Y_val = 5"
      using model(2) by (auto simp: dict_get_absent)
    have dt: "map_of kvs ''temp'' = None \<longrightarrow> t = Fin 20.0"
      using we(1) by (auto simp: dict_get_absent)
    have dr: "map_of kvs ''RH'' = None \<longrightarrow> r = Fin 40.0"
      using we(2) by (auto simp: dict_get_absent)
    have dw: "map_of kvs ''wind'' = None \<longrightarrow> w = Fin 1.0"
      using we(3) by (auto simp: dict_get_absent)
    have dn: "map_of kvs ''rain'' = None \<longrightarrow> n = Fin 0.0"
      using we(4) by (auto simp: dict_get_absent)
    show ?thesis
      by (intro exI conjI)
         (rule data calls[unfolded fv] model(1-4) fl we dX dY dt dr dw dn)+
  qed (use assms data in \<open>simp_all add: escapes_def responds_def\<close>)
qed

text \<open>
  Scenario 2 of the specification: the four indexes and nothing else. The defaults fill
  X, Y and the four weather values.
\<close>

theorem feature_vector_order_and_defaults_witness:
  "result (predict demo_env
     (PDict [(''FFMC'', PFloat (Fin 85)), (''DMC'', PFloat (Fin 50)), (''DC'', PFloat (Fin 300)),
             (''ISI'', PFloat (Fin 10))])) =
     Inr (Success 5 ''Medium'' ''yellow''
            [(''X'', PInt 5), (''Y'', PInt 5), (''month_enc'', PInt 9), (''day_enc'', PInt 6),
             (''FFMC'', PFloat (Fin 85)), (''DMC'', PFloat (Fin 50)), (''DC'', PFloat (Fin 300)),
             (''ISI'', PFloat (Fin 10)), (''temp'', PFloat (Fin 20)), (''RH'', PFloat (Fin 40)),
             (''wind'', PFloat (Fin 1)), (''rain'', PFloat (Fin 0))]) \<and>
   (\<exists>month_enc day_enc FFMC DMC DC ISI.
      model_calls (predict demo_env
        (PDict [(''FFMC'', PFloat (Fin 85)), (''DMC'', PFloat (Fin 50)), (''DC'', PFloat (Fin 300)),
                (''ISI'', PFloat (Fin 10))])) =
        [[PFloat (Fin 5), PFloat (Fin 5), PInt month_enc, PInt day_enc,
          PFloat FFMC, PFloat DMC, PFloat DC, PFloat ISI,
          PFloat (Fin 20), PFloat (Fin 40), PFloat (Fin 1), PFloat (Fin 0)]])"
proof -
  have r: "result (predict demo_env
     (PDict [(''FFMC'', PFloat (Fin 85)), (''DMC'', PFloat (Fin 50)), (''DC'', PFloat (Fin 300)),
             (''ISI'', PFloat (Fin 10))])) =
     Inr (Success 5 ''Medium'' ''yellow''
            [(''X'', PInt 5), (''Y'', PInt 5), (''month_enc'', PInt 9), (''day_enc'', PInt 6),
             (''FFMC'', PFloat (Fin 85)), (''DMC'', PFloat (Fin 50)), (''DC'', PFloat (Fin 300)),
             (''ISI'', PFloat (Fin 10)), (''temp'', PFloat (Fin 20)), (''RH'', PFloat (Fin 40)),
             (''wind'', PFloat (Fin 1)), (''rain'', PFloat (Fin 0))])"
    by code_simp
  from feature_vector_order_and_defaults[OF r] have "\<exists>month_enc day_enc FFMC DMC DC ISI.
      model_calls (predict demo_env
        (PDict [(''FFMC'', PFloat (Fin 85)), (''DMC'', PFloat (Fin 50)), (''DC'', PFloat (Fin 300)),
                (''ISI'', PFloat (Fin 10))])) =
        [[PFloat (Fin 5), PFloat (Fin 5), PInt month_enc, PInt day_enc,
          PFloat FFMC, PFloat DMC, PFloat DC, PFloat ISI,
          PFloat (Fin 20), PFloat (Fin 40), PFloat (Fin 1), PFloat (Fin 0)]]"
    by (elim exE conjE) clarsimp
  with r show ?thesis by (rule conjI)
qed

section \<open>The fire-weather indexes in the feature vector\<close>





lemma indexes_of_model_call:
  "(fv \<in> set (model_calls (predict env (PDict kvs))) \<longrightarrow>
      (\<exists>FFMC DMC DC ISI.
         take 4 (drop 4 fv) = [PFloat FFMC, PFloat DMC, PFloat DC, PFloat ISI] \<and>
         (if index_absent kvs
          then \<exists>temp rh wind rain.
                 py_float env (dict_get kvs ''temp'' PNone) = Inr temp \<and>
                 py_float env (dict_get kvs ''RH'' PNone) = Inr rh \<and>
                 py_float env (dict_get kvs ''wind'' PNone) = Inr wind \<and>
                 py_float env (dict_get kvs ''rain'' (PFloat (Fin 0.0))) = Inr rain \<and>
                 estimate_fire_indexes_float temp rh wind rain = (FFMC, DMC, DC, ISI)
          else py_float env (dict_get kvs ''FFMC'' PNone) = Inr FFMC \<and>
               py_float env (dict_get kvs ''DMC'' PNone) = Inr DMC \<and>
               py_float env (dict_get kvs ''DC'' PNone) = Inr DC \<and>
               py_float env (dict_get kvs ''ISI'' PNone) = Inr ISI))) \<and>
   (result (predict env (PDict kvs)) = Inr (Success sc b col fu) \<longrightarrow>
      (if index_absent kvs
       then \<exists>temp rh wind rain FFMC DMC DC ISI.
              py_float env (dict_get kvs ''temp'' PNone) = Inr temp \<and>
              py_float env (dict_get kvs ''RH'' PNone) = Inr rh \<and>
              py_float env (dict_get kvs ''wind'' PNone) = Inr wind \<and>
              py_float env (dict_get kvs ''rain'' (PFloat (Fin 0.0))) = Inr rain \<and>
              estimate_fire_indexes_float temp rh wind rain = (FFMC, DMC, DC, ISI) \<and>
              map_of fu ''FFMC'' = Some (PFloat FFMC) \<and> map_of fu ''DMC'' = Some (PFloat DMC) \<and>
              map_of fu ''DC'' = Some (PFloat DC) \<and> map_of fu ''ISI'' = Some (PFloat ISI)
       else map_of fu ''FFMC'' = map_of kvs ''FFMC'' \<and> map_of fu ''DMC'' = map_of kvs ''DMC'' \<and>
            map_of fu ''DC'' = map_of kvs ''DC'' \<and> map_of fu ''ISI'' = map_of kvs ''ISI''))"
proof (intro conjI impI)
  assume "fv \<in> set (model_calls (predict env (PDict kvs)))"
  then show "\<exists>FFMC DMC DC ISI.
         take 4 (drop 4 fv) = [PFloat FFMC, PFloat DMC, PFloat DC, PFloat ISI] \<and>
         (if index_absent kvs
          then \<exists>temp rh wind rain.
                 py_float env (dict_get kvs ''temp'' PNone) = Inr temp \<and>
                 py_float env (dict_get kvs ''RH'' PNone) = Inr rh \<and>
                 py_float env (dict_get kvs ''wind'' PNone) = Inr wind \<and>
                 py_float env (dict_get kvs ''rain'' (PFloat (Fin 0.0))) = Inr rain \<and>
                 estimate_fire_indexes_float temp rh wind rain = (FFMC, DMC, DC, ISI)
          else py_float env (dict_get kvs ''FFMC'' PNone) = Inr FFMC \<and>
               py_float env (dict_get kvs ''DMC'' PNone) = Inr DMC \<and>
               py_float env (dict_get kvs ''DC'' PNone) = Inr DC \<and>
               py_float env (dict_get kvs ''ISI'' PNone) = Inr ISI)"
  proof (cases rule: model_calls_features)
    case (1 X_val Y_val month_enc day_enc ffmc dmc dc isi weather)
    from build_features_Inr[OF 1(5)] obtain f d c i t r w n where
      fv: "fv = [PFloat (Fin (of_int X_val)), PFloat (Fin (of_int Y_val)), PInt month_enc, PInt day_enc,
                 PFloat f, PFloat d, PFloat c, PFloat i, PFloat t, PFloat r, PFloat w, PFloat n]"
      and fl: "py_float env ffmc = Inr f" "py_float env dmc = Inr d"
              "py_float env dc = Inr c" "py_float env isi = Inr i"
      by blast
    have tk: "take 4 (drop 4 fv) = [PFloat f, PFloat d, PFloat c, PFloat i]"
      by (simp add: fv)
    show ?thesis
    proof (cases "index_absent kvs")
      case True
      from resolve_indexes_estimated[OF True 1(4)] obtain temp rh wind rain f' d' c' i' where
        w: "py_float env (dict_get kvs ''temp'' PNone) = Inr temp"
           "py_float env (dict_get kvs ''RH'' PNone) = Inr rh"
           "py_float env (dict_get kvs ''wind'' PNone) = Inr wind"
           "py_float env (dict_get kvs ''rain'' (PFloat (Fin 0.0))) = Inr rain"
        and e: "estimate_fire_indexes_float temp rh wind rain = (f', d', c', i')"
        and v: "ffmc = PFloat f'" "dmc = PFloat d'" "dc = PFloat c'" "isi = PFloat i'"
        by blast
      have "f = f'" "d = d'" "c = c'" "i = i'" using v fl by auto
      then show ?thesis using True tk w e by auto
    next
      case False
      from resolve_indexes_supplied[OF False, of env] 1(4) fl tk show ?thesis
        using False by simp
    qed
  qed
next
  assume S: "result (predict env (PDict kvs)) = Inr (Success sc b col fu)"
  show "if index_absent kvs
       then \<exists>temp rh wind rain FFMC DMC DC ISI.
              py_float env (dict_get kvs ''temp'' PNone) = Inr temp \<and>
              py_float env (dict_get kvs ''RH'' PNone) = Inr rh \<and>
              py_float env (dict_get kvs ''wind'' PNone) = Inr wind \<and>
              py_float env (dict_get kvs ''rain'' (PFloat (Fin 0.0))) = Inr rain \<and>
              estimate_fire_indexes_float temp rh wind rain = (FFMC, DMC, DC, ISI) \<and>
              map_of fu ''FFMC'' = Some (PFloat FFMC) \<and> map_of fu ''DMC'' = Some (PFloat DMC) \<and>
              map_of fu ''DC'' = Some (PFloat DC) \<and> map_of fu ''ISI'' = Some (PFloat ISI)
       else map_of fu ''FFMC'' = map_of kvs ''FFMC'' \<and> map_of fu ''DMC'' = map_of kvs ''DMC'' \<and>
            map_of fu ''DC'' = map_of kvs ''DC'' \<and> map_of fu ''ISI'' = map_of kvs ''ISI''"
  proof (cases env kvs rule: predict_cases)
    case (model X_val Y_val month_enc day_enc ffmc dmc dc isi weather features)
    from S have fu: "map_of fu ''FFMC'' = Some ffmc" "map_of fu ''DMC'' = Some dmc"
        "map_of fu ''DC'' = Some dc" "map_of fu ''ISI'' = Some isi"
      using result_run_model_Success[of env X_val Y_val month_enc day_enc ffmc dmc dc isi weather features sc b col fu]
      by (simp_all add: model(6))
    show ?thesis
    proof (cases "index_absent kvs")
      case True
      from resolve_indexes_estimated[OF True model(4)] show ?thesis using True fu by auto
    next
      case False
      then have nn: "\<not> is_None (dict_get kvs ''FFMC'' PNone)" "\<not> is_None (dict_get kvs ''DMC'' PNone)"
        "\<not> is_None (dict_get kvs ''DC'' PNone)" "\<not> is_None (dict_get kvs ''ISI'' PNone)"
        by (simp_all add: index_absent_def)
      from resolve_indexes_supplied[OF False, of env] model(4)
      have "ffmc = dict_get kvs ''FFMC'' PNone" "dmc = dict_get kvs ''DMC'' PNone"
        "dc = dict_get kvs ''DC'' PNone" "isi = dict_get kvs ''ISI'' PNone" by simp_all
      then show ?thesis using False fu nn[THEN not_None_dict_get] by simp
    qed
  qed (use S in \<open>simp_all add: escapes_def responds_def\<close>)
qed

lemma estimation_reaches_model:
  assumes "index_absent kvs \<and>
    py_int env (dict_get kvs ''X'' (PInt 5)) = Inr X_val \<and> \<not> float_overflows X_val \<and>
    py_int env (dict_get kvs ''Y'' (PInt 5)) = Inr Y_val \<and> \<not> float_overflows Y_val \<and>
    encode_month_day env (fst (month_and_day env kvs)) (snd (month_and_day env kvs)) =
      Inr (month_enc, day_enc) \<and>
    py_float env (dict_get kvs ''temp'' PNone) = Inr temp \<and>
    py_float env (dict_get kvs ''RH'' PNone) = Inr rh \<and>
    py_float env (dict_get kvs ''wind'' PNone) = Inr wind \<and>
    py_float env (dict_get kvs ''rain'' (PFloat (Fin 0.0))) = Inr rain \<and>
    estimate_fire_indexes_float temp rh wind rain = (FFMC, DMC, DC, ISI)"
  shows "model_calls (predict env (PDict kvs)) =
        [[PFloat (Fin (of_int X_val)), PFloat (Fin (of_int Y_val)), PInt month_enc, PInt day_enc,
          PFloat FFMC, PFloat DMC, PFloat DC, PFloat ISI,
          PFloat temp, PFloat rh, PFloat wind, PFloat rain]] \<and>
      (\<forall>sc b col fu.
         result (predict env (PDict kvs)) = Inr (Success sc b col fu) \<longrightarrow>
           map_of fu ''FFMC'' = Some (PFloat FFMC) \<and> map_of fu ''DMC'' = Some (PFloat DMC) \<and>
           map_of fu ''DC'' = Some (PFloat DC) \<and> map_of fu ''ISI'' = Some (PFloat ISI))"
proof -
  from assms have p: "predict env (PDict kvs) =
           run_model env X_val Y_val month_enc day_enc
             (PFloat FFMC) (PFloat DMC) (PFloat DC) (PFloat ISI) (temp, rh, wind, rain)
             [PFloat (Fin (of_int X_val)), PFloat (Fin (of_int Y_val)),
              PInt month_enc, PInt day_enc,
              PFloat FFMC, PFloat DMC, PFloat DC, PFloat ISI,
              PFloat temp, PFloat rh, PFloat wind, PFloat rain]"
    by (intro estimation_taken) simp_all
  show ?thesis
    unfolding p by (auto simp: model_calls_run_model dest: result_run_model_Success)
qed

lemma supplied_reach_model:
  assumes "\<not> index_absent kvs \<and>
    py_int env (dict_get kvs ''X'' (PInt 5)) = Inr X_val \<and> \<not> float_overflows X_val \<and>
    py_int env (dict_get kvs ''Y'' (PInt 5)) = Inr Y_val \<and> \<not> float_overflows Y_val \<and>
    encode_month_day env (fst (month_and_day env kvs)) (snd (month_and_day env kvs)) =
      Inr (month_enc, day_enc) \<and>
    py_float env (dict_get kvs ''FFMC'' PNone) = Inr f \<and>
    py_float env (dict_get kvs ''DMC'' PNone) = Inr d \<and>
    py_float env (dict_get kvs ''DC'' PNone) = Inr c \<and>
    py_float env (dict_get kvs ''ISI'' PNone) = Inr i \<and>
    py_float env (dict_get kvs ''temp'' (PFloat (Fin 20.0))) = Inr t \<and>
    py_float env (dict_get kvs ''RH'' (PFloat (Fin 40.0))) = Inr r \<and>
    py_float env (dict_get kvs ''wind'' (PFloat (Fin 1.0))) = Inr w \<and>
    py_float env (dict_get kvs ''rain'' (PFloat (Fin 0.0))) = Inr n"
  shows "model_calls (predict env (PDict kvs)) =
        [[PFloat (Fin (of_int X_val)), PFloat (Fin (of_int Y_val)), PInt month_enc, PInt day_enc,
          PFloat f, PFloat d, PFloat c, PFloat i,
          PFloat t, PFloat r, PFloat w, PFloat n]] \<and>
      (\<forall>sc b col fu.
         result (predict env (PDict kvs)) = Inr (Success sc b col fu) \<longrightarrow>
           map_of fu ''FFMC'' = map_of kvs ''FFMC'' \<and> map_of fu ''DMC'' = map_of kvs ''DMC'' \<and>
           map_of fu ''DC'' = map_of kvs ''DC'' \<and> map_of fu ''ISI'' = map_of kvs ''ISI'')"
proof -
  from assms have p: "predict env (PDict kvs) =
           run_model env X_val Y_val month_enc day_enc
             (dict_get kvs ''FFMC'' PNone) (dict_get kvs ''DMC'' PNone)
             (dict_get kvs ''DC'' PNone) (dict_get kvs ''ISI'' PNone) (t, r, w, n)
             [PFloat (Fin (of_int X_val)), PFloat (Fin (of_int Y_val)),
              PInt month_enc, PInt day_enc,
              PFloat f, PFloat d, PFloat c, PFloat i,
              PFloat t, PFloat r, PFloat w, PFloat n]"
    by (intro supplied_taken) simp_all
  from assms have nn: "\<not> is_None (dict_get kvs ''FFMC'' PNone)" "\<not> is_None (dict_get kvs ''DMC'' PNone)"
    "\<not> is_None (dict_get kvs ''DC'' PNone)" "\<not> is_None (dict_get kvs ''ISI'' PNone)"
    by (simp_all add: index_absent_def)
  show ?thesis
    unfolding p using nn[THEN not_None_dict_get]
    by (auto simp: model_calls_run_model dest: result_run_model_Success)
qed

text \<open>
  C3. When any of FFMC, DMC, DC, ISI is absent and the request gets through the
  conversions (X, Y, month, day, and the \<^verbatim>\<open>float\<close> of temp, RH, wind and of rain or 0.0),
  the model is called with the estimator's output on these four values in the four index
  slots, and \<^verbatim>\<open>features_used\<close> holds the same, whatever was supplied for the other
  indexes. When all four are supplied and the conversions succeed, the model is called
  with their \<^verbatim>\<open>float\<close>, and \<^verbatim>\<open>features_used\<close> holds the supplied values themselves.
  Conversely, every vector handed to the model and every success response is of one of
  these two kinds, according to the gate.
\<close>

theorem all_or_nothing_indexes:
  "(index_absent kvs \<and>
    py_int env (dict_get kvs ''X'' (PInt 5)) = Inr X_val \<and> \<not> float_overflows X_val \<and>
    py_int env (dict_get kvs ''Y'' (PInt 5)) = Inr Y_val \<and> \<not> float_overflows Y_val \<and>
    encode_month_day env (fst (month_and_day env kvs)) (snd (month_and_day env kvs)) =
      Inr (month_enc, day_enc) \<and>
    py_float env (dict_get kvs ''temp'' PNone) = Inr temp \<and>
    py_float env (dict_get kvs ''RH'' PNone) = Inr rh \<and>
    py_float env (dict_get kvs ''wind'' PNone) = Inr wind \<and>
    py_float env (dict_get kvs ''rain'' (PFloat (Fin 0.0))) = Inr rain \<and>
    estimate_fire_indexes_float temp rh wind rain = (FFMC, DMC, DC, ISI) \<longrightarrow>
      model_calls (predict env (PDict kvs)) =
        [[PFloat (Fin (of_int X_val)), PFloat (Fin (of_int Y_val)), PInt month_enc, PInt day_enc,
          PFloat FFMC, PFloat DMC, PFloat DC, PFloat ISI,
          PFloat temp, PFloat rh, PFloat wind, PFloat rain]] \<and>
      (\<forall>sc b col fu.
         result (predict env (PDict kvs)) = Inr (Success sc b col fu) \<longrightarrow>
           map_of fu ''FFMC'' = Some (PFloat FFMC) \<and> map_of fu ''DMC'' = Some (PFloat DMC) \<and>
           map_of fu ''DC'' = Some (PFloat DC) \<and> map_of fu ''ISI'' = Some (PFloat ISI))) \<and>
   (\<not> index_absent kvs \<and>
    py_int env (dict_get kvs ''X'' (PInt 5)) = Inr X_val \<and> \<not> float_overflows X_val \<and>
    py_int env (dict_get kvs ''Y'' (PInt 5)) = Inr Y_val \<and> \<not> float_overflows Y_val \<and>
    encode_month_day env (fst (month_and_day env kvs)) (snd (month_and_day env kvs)) =
      Inr (month_enc, day_enc) \<and>
    py_float env (dict_get kvs ''FFMC'' PNone) = Inr f \<and>
    py_float env (dict_get kvs ''DMC'' PNone) = Inr d \<and>
    py_float env (dict_get kvs ''DC'' PNone) = Inr c \<and>
    py_float env (dict_get kvs ''ISI'' PNone) = Inr i \<and>
    py_float env (dict_get kvs ''temp'' (PFloat (Fin 20.0))) = Inr t \<and>
    py_float env (dict_get kvs ''RH'' (PFloat (Fin 40.0))) = Inr r \<and>
    py_float env (dict_get kvs ''wind'' (PFloat (Fin 1.0))) = Inr w \<and>
    py_float env (dict_get kvs ''rain'' (PFloat (Fin 0.0))) = Inr n \<longrightarrow>
      model_calls (predict env (PDict kvs)) =
        [[PFloat (Fin (of_int X_val)), PFloat (Fin (of_int Y_val)), PInt month_enc, PInt day_enc,
          PFloat f, PFloat d, PFloat c, PFloat i,
          PFloat t, PFloat r, PFloat w, PFloat n]] \<and>
      (\<forall>sc b col fu.
         result (predict env (PDict kvs)) = Inr (Success sc b col fu) \<longrightarrow>
           map_of fu ''FFMC'' = map_of kvs ''FFMC'' \<and> map_of fu ''DMC'' = map_of kvs ''DMC'' \<and>
           map_of fu ''DC'' = map_of kvs ''DC'' \<and> map_of fu ''ISI'' = map_of kvs ''ISI'')) \<and>
   (fv \<in> set (model_calls (predict env (PDict kvs))) \<longrightarrow>
      (\<exists>FFMC DMC DC ISI.
         take 4 (drop 4 fv) = [PFloat FFMC, PFloat DMC, PFloat DC, PFloat ISI] \<and>
         (if index_absent kvs
          then \<exists>temp rh wind rain.
                 py_float env (dict_get kvs ''temp'' PNone) = Inr temp \<and>
                 py_float env (dict_get kvs ''RH'' PNone) = Inr rh \<and>
                 py_float env (dict_get kvs ''wind'' PNone) = Inr wind \<and>
                 py_float env (dict_get kvs ''rain'' (PFloat (Fin 0.0))) = Inr rain \<and>
                 estimate_fire_indexes_float temp rh wind rain = (FFMC, DMC, DC, ISI)
          else py_float env (dict_get kvs ''FFMC'' PNone) = Inr FFMC \<and>
               py_float env (dict_get kvs ''DMC'' PNone) = Inr DMC \<and>
               py_float env (dict_get kvs ''DC'' PNone) = Inr DC \<and>
               py_float env (dict_get kvs ''ISI'' PNone) = Inr ISI))) \<and>
   (result (predict env (PDict kvs)) = Inr (Success sc b col fu) \<longrightarrow>
      (if index_absent kvs
       then \<exists>temp rh wind rain FFMC DMC DC ISI.
              py_float env (dict_get kvs ''temp'' PNone) = Inr temp \<and>
              py_float env (dict_get kvs ''RH'' PNone) = Inr rh \<and>
              py_float env (dict_get kvs ''wind'' PNone) = Inr wind \<and>
              py_float env (dict_get kvs ''rain'' (PFloat (Fin 0.0))) = Inr rain \<and>
              estimate_fire_indexes_float temp rh wind rain = (FFMC, DMC, DC, ISI) \<and>
              map_of fu ''FFMC'' = Some (PFloat FFMC) \<and> map_of fu ''DMC'' = Some (PFloat DMC) \<and>
              map_of fu ''DC'' = Some (PFloat DC) \<and> map_of fu ''ISI'' = Some (PFloat ISI)
       else map_of fu ''FFMC'' = map_of kvs ''FFMC'' \<and> map_of fu ''DMC'' = map_of kvs ''DMC'' \<and>
            map_of fu ''DC'' = map_of kvs ''DC'' \<and> map_of fu ''ISI'' = map_of kvs ''ISI''))"
  using estimation_reaches_model[of kvs env X_val Y_val month_enc day_enc temp rh wind rain FFMC DMC DC ISI]
    supplied_reach_model[of kvs env X_val Y_val month_enc day_enc f d c i t r w n]
    indexes_of_model_call[of fv env kvs sc b col fu]
  by blast

text \<open>
  FFMC alone is supplied as 85: the model is called with the estimate 46.6, not with 85.
  All four supplied: the model is called with them.
\<close>

theorem all_or_nothing_indexes_witness:
  "map_of [(''FFMC'', PFloat (Fin 85)), (''temp'', PInt 20), (''RH'', PInt 40), (''wind'', PInt 1)] ''FFMC'' = Some (PFloat (Fin 85)) \<and>
   model_calls (predict demo_env (PDict [(''FFMC'', PFloat (Fin 85)), (''temp'', PInt 20), (''RH'', PInt 40), (''wind'', PInt 1)])) =
     [[PFloat (Fin 5), PFloat (Fin 5), PInt 9, PInt 6,
       PFloat (Fin 46.6), PFloat (Fin 41.5), PFloat (Fin 70.7), PFloat (Fin 2.35),
       PFloat (Fin 20), PFloat (Fin 40), PFloat (Fin 1), PFloat (Fin 0)]] \<and>
   model_calls (predict demo_env (PDict [(''FFMC'', PFloat (Fin 85)), (''DMC'', PFloat (Fin 50)), (''DC'', PFloat (Fin 300)),
      (''ISI'', PFloat (Fin 10))])) =
     [[PFloat (Fin 5), PFloat (Fin 5), PInt 9, PInt 6,
       PFloat (Fin 85), PFloat (Fin 50), PFloat (Fin 300), PFloat (Fin 10),
       PFloat (Fin 20), PFloat (Fin 40), PFloat (Fin 1), PFloat (Fin 0)]]"
proof -
  have a: "index_absent [(''FFMC'', PFloat (Fin 85)), (''temp'', PInt 20), (''RH'', PInt 40), (''wind'', PInt 1)] \<and>
    py_int demo_env (dict_get [(''FFMC'', PFloat (Fin 85)), (''temp'', PInt 20), (''RH'', PInt 40), (''wind'', PInt 1)] ''X'' (PInt 5)) = Inr 5 \<and> \<not> float_overflows 5 \<and>
    py_int demo_env (dict_get [(''FFMC'', PFloat (Fin 85)), (''temp'', PInt 20), (''RH'', PInt 40), (''wind'', PInt 1)] ''Y'' (PInt 5)) = Inr 5 \<and> \<not> float_overflows 5 \<and>
    encode_month_day demo_env (fst (month_and_day demo_env [(''FFMC'', PFloat (Fin 85)), (''temp'', PInt 20), (''RH'', PInt 40), (''wind'', PInt 1)])) (snd (month_and_day demo_env [(''FFMC'', PFloat (Fin 85)), (''temp'', PInt 20), (''RH'', PInt 40), (''wind'', PInt 1)])) =
      Inr (9, 6) \<and>
    py_float demo_env (dict_get [(''FFMC'', PFloat (Fin 85)), (''temp'', PInt 20), (''RH'', PInt 40), (''wind'', PInt 1)] ''temp'' PNone) = Inr (Fin 20) \<and>
    py_float demo_env (dict_get [(''FFMC'', PFloat (Fin 85)), (''temp'', PInt 20), (''RH'', PInt 40), (''wind'', PInt 1)] ''RH'' PNone) = Inr (Fin 40) \<and>
    py_float demo_env (dict_get [(''FFMC'', PFloat (Fin 85)), (''temp'', PInt 20), (''RH'', PInt 40), (''wind'', PInt 1)] ''wind'' PNone) = Inr (Fin 1) \<and>
    py_float demo_env (dict_get [(''FFMC'', PFloat (Fin 85)), (''temp'', PInt 20), (''RH'', PInt 40), (''wind'', PInt 1)] ''rain'' (PFloat (Fin 0.0))) = Inr (Fin 0) \<and>
    estimate_fire_indexes_float (Fin 20) (Fin 40) (Fin 1) (Fin 0) = (Fin 46.6, Fin 41.5, Fin 70.7, Fin 2.35)"
    by code_simp
  have b: "\<not> index_absent [(''FFMC'', PFloat (Fin 85)), (''DMC'', PFloat (Fin 50)), (''DC'', PFloat (Fin 300)),
      (''ISI'', PFloat (Fin 10))] \<and>
    py_int demo_env (dict_get [(''FFMC'', PFloat (Fin 85)), (''DMC'', PFloat (Fin 50)), (''DC'', PFloat (Fin 300)),
      (''ISI'', PFloat (Fin 10))] ''X'' (PInt 5)) = Inr 5 \<and> \<not> float_overflows 5 \<and>
    py_int demo_env (dict_get [(''FFMC'', PFloat (Fin 85)), (''DMC'', PFloat (Fin 50)), (''DC'', PFloat (Fin 300)),
      (''ISI'', PFloat (Fin 10))] ''Y'' (PInt 5)) = Inr 5 \<and> \<not> float_overflows 5 \<and>
    encode_month_day demo_env (fst (month_and_day demo_env [(''FFMC'', PFloat (Fin 85)), (''DMC'', PFloat (Fin 50)), (''DC'', PFloat (Fin 300)),
      (''ISI'', PFloat (Fin 10))])) (snd (month_and_day demo_env [(''FFMC'', PFloat (Fin 85)), (''DMC'', PFloat (Fin 50)), (''DC'', PFloat (Fin 300)),
      (''ISI'', PFloat (Fin 10))])) =
      Inr (9, 6) \<and>
    py_float demo_env (dict_get [(''FFMC'', PFloat (Fin 85)), (''DMC'', PFloat (Fin 50)), (''DC'', PFloat (Fin 300)),
      (''ISI'', PFloat (Fin 10))] ''FFMC'' PNone) = Inr (Fin 85) \<and>
    py_float demo_env (dict_get [(''FFMC'', PFloat (Fin 85)), (''DMC'', PFloat (Fin 50)), (''DC'', PFloat (Fin 300)),
      (''ISI'', PFloat (Fin 10))] ''DMC'' PNone) = Inr (Fin 50) \<and>
    py_float demo_env (dict_get [(''FFMC'', PFloat (Fin 85)), (''DMC'', PFloat (Fin 50)), (''DC'', PFloat (Fin 300)),
      (''ISI'', PFloat (Fin 10))] ''DC'' PNone) = Inr (Fin 300) \<and>
    py_float demo_env (dict_get [(''FFMC'', PFloat (Fin 85)), (''DMC'', PFloat (Fin 50)), (''DC'', PFloat (Fin 300)),
      (''ISI'', PFloat (Fin 10))] ''ISI'' PNone) = Inr (Fin 10) \<and>
    py_float demo_env (dict_get [(''FFMC'', PFloat (Fin 85)), (''DMC'', PFloat (Fin 50)), (''DC'', PFloat (Fin 300)),
      (''ISI'', PFloat (Fin 10))] ''temp'' (PFloat (Fin 20.0))) = Inr (Fin 20) \<and>
    py_float demo_env (dict_get [(''FFMC'', PFloat (Fin 85)), (''DMC'', PFloat (Fin 50)), (''DC'', PFloat (Fin 300)),
      (''ISI'', PFloat (Fin 10))] ''RH'' (PFloat (Fin 40.0))) = Inr (Fin 40) \<and>
    py_float demo_env (dict_get [(''FFMC'', PFloat (Fin 85)), (''DMC'', PFloat (Fin 50)), (''DC'', PFloat (Fin 300)),
      (''ISI'', PFloat (Fin 10))] ''wind'' (PFloat (Fin 1.0))) = Inr (Fin 1) \<and>
    py_float demo_env (dict_get [(''FFMC'', PFloat (Fin 85)), (''DMC'', PFloat (Fin 50)), (''DC'', PFloat (Fin 300)),
      (''ISI'', PFloat (Fin 10))] ''rain'' (PFloat (Fin 0.0))) = Inr (Fin 0)"
    by code_simp
  have s: "map_of [(''FFMC'', PFloat (Fin 85)), (''temp'', PInt 20), (''RH'', PInt 40), (''wind'', PInt 1)] ''FFMC'' = Some (PFloat (Fin 85))"
    by simp
  note A = all_or_nothing_indexes[THEN conjunct1, THEN mp, OF a, THEN conjunct1]
  note B = all_or_nothing_indexes[THEN conjunct2, THEN conjunct1, THEN mp, OF b, THEN conjunct1]
  from s A B show ?thesis by simp
qed

section \<open>Month and day\<close>

text \<open>
  C5, as stated, fails: with the clock at Wednesday 4 November, a request that supplies
  the month \<^verbatim>\<open>aug\<close> and no day is encoded as November (ordinal 9), not as August
  (ordinal 1).
\<close>

theorem supplied_month_overridden:
  "predict demo_env
     (PDict [(''month'', PStr ''aug''), (''temp'', PInt 20), (''RH'', PInt 40), (''wind'', PInt 1)]) =
   \<lparr>model_calls =
      [[PFloat (Fin 5), PFloat (Fin 5), PInt 9, PInt 6, PFloat (Fin 46.6), PFloat (Fin 41.5), PFloat (Fin 70.7), PFloat (Fin 2.35),
        PFloat (Fin 20), PFloat (Fin 40), PFloat (Fin 1), PFloat (Fin 0)]],
    result =
      Inr (Success 5 ''Medium'' ''yellow''
            [(''X'', PInt 5), (''Y'', PInt 5), (''month_enc'', PInt 9), (''day_enc'', PInt 6),
             (''FFMC'', PFloat (Fin 46.6)), (''DMC'', PFloat (Fin 41.5)), (''DC'', PFloat (Fin 70.7)),
             (''ISI'', PFloat (Fin 2.35)), (''temp'', PFloat (Fin 20)), (''RH'', PFloat (Fin 40)),
             (''wind'', PFloat (Fin 1)), (''rain'', PFloat (Fin 0))])\<rparr> \<and>
   encode_month_day demo_env (PStr ''aug'') (PStr ''wed'') = Inr (1, 6) \<and>
   encode_month_day demo_env (PStr ''nov'') (PStr ''wed'') = Inr (9, 6)"
  by code_simp

text \<open>
  C5, amended. When the month or the day is absent, both are replaced by the lowercased
  abbreviations of the current UTC month and weekday, and the request is answered as the
  one that supplies these two labels; the supplied month and day are used only when both
  are supplied.
\<close>

theorem month_day_default_jointly:
  "(is_None (dict_get kvs ''month'' PNone) \<or> is_None (dict_get kvs ''day'' PNone) \<longrightarrow>
      month_and_day env kvs = (PStr (lower (strftime_b env)), PStr (lower (strftime_a env))) \<and>
      predict env (PDict kvs) =
        predict env (PDict ((''month'', PStr (lower (strftime_b env))) #
                            (''day'', PStr (lower (strftime_a env))) # kvs))) \<and>
   (\<not> is_None (dict_get kvs ''month'' PNone) \<and> \<not> is_None (dict_get kvs ''day'' PNone) \<longrightarrow>
      month_and_day env kvs = (dict_get kvs ''month'' PNone, dict_get kvs ''day'' PNone))"
  using month_and_day_clock[of kvs env] month_and_day_supplied[of kvs env]
    predict_month_day_set[of env kvs "lower (strftime_b env)" "lower (strftime_a env)"]
  by auto

theorem month_day_default_jointly_witness:
  "is_None (dict_get [(''month'', PStr ''aug'')] ''day'' PNone) \<and>
   month_and_day demo_env [(''month'', PStr ''aug'')] = (PStr ''nov'', PStr ''wed'') \<and>
   predict demo_env (PDict [(''month'', PStr ''aug'')]) =
     predict demo_env (PDict [(''month'', PStr ''nov''), (''day'', PStr ''wed''), (''month'', PStr ''aug'')]) \<and>
   month_and_day demo_env [(''month'', PStr ''aug''), (''day'', PStr ''sun'')] =
     (PStr ''aug'', PStr ''sun'')"
proof -
  have l: "lower (strftime_b demo_env) = ''nov''" "lower (strftime_a demo_env) = ''wed''"
    by code_simp+
  have n: "is_None (dict_get [(''month'', PStr ''aug'')] ''day'' PNone)"
    by code_simp
  have s: "\<not> is_None (dict_get [(''month'', PStr ''aug''), (''day'', PStr ''sun'')] ''month'' PNone)"
    "\<not> is_None (dict_get [(''month'', PStr ''aug''), (''day'', PStr ''sun'')] ''day'' PNone)"
    "dict_get [(''month'', PStr ''aug''), (''day'', PStr ''sun'')] ''month'' PNone = PStr ''aug''"
    "dict_get [(''month'', PStr ''aug''), (''day'', PStr ''sun'')] ''day'' PNone = PStr ''sun''"
    by code_simp+
  from month_day_default_jointly[of "[(''month'', PStr ''aug'')]" demo_env] n
  have 1: "month_and_day demo_env [(''month'', PStr ''aug'')] = (PStr ''nov'', PStr ''wed'') \<and>
   predict demo_env (PDict [(''month'', PStr ''aug'')]) =
     predict demo_env (PDict [(''month'', PStr ''nov''), (''day'', PStr ''wed''), (''month'', PStr ''aug'')])"
    unfolding l by blast
  from month_day_default_jointly[of "[(''month'', PStr ''aug''), (''day'', PStr ''sun'')]" demo_env] s
  have 2: "month_and_day demo_env [(''month'', PStr ''aug''), (''day'', PStr ''sun'')] =
     (PStr ''aug'', PStr ''sun'')"
    by metis
  from n 1 2 show ?thesis by blast
qed




text \<open>
  C8, as stated, fails: the unknown month \<^verbatim>\<open>xyz\<close> of a request without a day is
  replaced by the clock's month, the request succeeds and the model is called.
\<close>

theorem unknown_month_overridden_by_clock:
  "predict demo_env
     (PDict [(''month'', PStr ''xyz''), (''temp'', PInt 20), (''RH'', PInt 40), (''wind'', PInt 1)]) =
   \<lparr>model_calls =
      [[PFloat (Fin 5), PFloat (Fin 5), PInt 9, PInt 6, PFloat (Fin 46.6), PFloat (Fin 41.5), PFloat (Fin 70.7), PFloat (Fin 2.35),
        PFloat (Fin 20), PFloat (Fin 40), PFloat (Fin 1), PFloat (Fin 0)]],
    result =
      Inr (Success 5 ''Medium'' ''yellow''
            [(''X'', PInt 5), (''Y'', PInt 5), (''month_enc'', PInt 9), (''day_enc'', PInt 6),
             (''FFMC'', PFloat (Fin 46.6)), (''DMC'', PFloat (Fin 41.5)), (''DC'', PFloat (Fin 70.7)),
             (''ISI'', PFloat (Fin 2.35)), (''temp'', PFloat (Fin 20)), (''RH'', PFloat (Fin 40)),
             (''wind'', PFloat (Fin 1)), (''rain'', PFloat (Fin 0))])\<rparr> \<and>
   ''xyz'' \<notin> set (le_month demo_env)"
  by code_simp

text \<open>
  C8, amended. When month and day are both supplied and one of them is a textual label
  that is not in its vocabulary, the model is never called, and if X and Y (or their
  default) convert to integers the request is answered with status 400 and the
  encoding-failed message.
\<close>

theorem unknown_label_rejected:
  assumes "\<not> is_None (dict_get kvs ''month'' PNone)" and "\<not> is_None (dict_get kvs ''day'' PNone)"
    and "(\<exists>l. dict_get kvs ''month'' PNone = PStr l \<and> l \<notin> set (le_month env)) \<or>
         (\<exists>l. dict_get kvs ''day'' PNone = PStr l \<and> l \<notin> set (le_day env))"
  shows "model_calls (predict env (PDict kvs)) = [] \<and>
         (py_int env (dict_get kvs ''X'' (PInt 5)) = Inr X_val \<and>
          py_int env (dict_get kvs ''Y'' (PInt 5)) = Inr Y_val \<longrightarrow>
            (\<exists>e. result (predict env (PDict kvs)) = Inr (Failure 400 encoding_failed e)))"
proof -
  have md: "month_and_day env kvs = (dict_get kvs ''month'' PNone, dict_get kvs ''day'' PNone)"
    using assms(1,2) by (rule month_and_day_supplied)
  from encode_month_day_unknown[OF assms(3)] obtain e where
    e: "encode_month_day env (fst (month_and_day env kvs)) (snd (month_and_day env kvs)) = Inl e"
    by (auto simp: md)
  show ?thesis
  proof (cases env kvs rule: predict_cases)
    case (bad_encoding X Y e')
    then show ?thesis by (simp add: responds_def)
  qed (use e in \<open>simp_all add: escapes_def\<close>)
qed

theorem unknown_label_rejected_witness:
  "model_calls (predict demo_env
     (PDict [(''month'', PStr ''xyz''), (''day'', PStr ''sun''), (''temp'', PInt 20),
             (''RH'', PInt 40), (''wind'', PInt 1)])) = [] \<and>
   (\<exists>e. result (predict demo_env
     (PDict [(''month'', PStr ''xyz''), (''day'', PStr ''sun''), (''temp'', PInt 20),
             (''RH'', PInt 40), (''wind'', PInt 1)])) = Inr (Failure 400 encoding_failed e))"
proof -
  have h: "\<not> is_None (dict_get [(''month'', PStr ''xyz''), (''day'', PStr ''sun''), (''temp'', PInt 20),
             (''RH'', PInt 40), (''wind'', PInt 1)] ''month'' PNone)"
    "\<not> is_None (dict_get [(''month'', PStr ''xyz''), (''day'', PStr ''sun''), (''temp'', PInt 20),
             (''RH'', PInt 40), (''wind'', PInt 1)] ''day'' PNone)"
    by code_simp+
  have u: "dict_get [(''month'', PStr ''xyz''), (''day'', PStr ''sun''), (''temp'', PInt 20),
             (''RH'', PInt 40), (''wind'', PInt 1)] ''month'' PNone = PStr ''xyz'' \<and>
           ''xyz'' \<notin> set (le_month demo_env)"
    by code_simp
  have xy: "py_int demo_env (dict_get [(''month'', PStr ''xyz''), (''day'', PStr ''sun''), (''temp'', PInt 20),
             (''RH'', PInt 40), (''wind'', PInt 1)] ''X'' (PInt 5)) = Inr 5 \<and>
          py_int demo_env (dict_get [(''month'', PStr ''xyz''), (''day'', PStr ''sun''), (''temp'', PInt 20),
             (''RH'', PInt 40), (''wind'', PInt 1)] ''Y'' (PInt 5)) = Inr 5"
    by code_simp
  have d: "(\<exists>l. dict_get [(''month'', PStr ''xyz''), (''day'', PStr ''sun''), (''temp'', PInt 20),
             (''RH'', PInt 40), (''wind'', PInt 1)] ''month'' PNone = PStr l \<and> l \<notin> set (le_month demo_env)) \<or>
         (\<exists>l. dict_get [(''month'', PStr ''xyz''), (''day'', PStr ''sun''), (''temp'', PInt 20),
             (''RH'', PInt 40), (''wind'', PInt 1)] ''day'' PNone = PStr l \<and> l \<notin> set (le_day demo_env))"
    using u by blast
  from unknown_label_rejected[OF h d, of 5 5] xy show ?thesis by blast
qed

section \<open>Errors\<close>

text \<open>
  C9, as stated, fails: temp, RH and wind are all there, and a rainfall that is not a
  number (here a list) is answered with the missing-meteorology failure.
\<close>

theorem malformed_rain_reported_as_missing:
  "predict demo_env
     (PDict [(''temp'', PInt 20), (''RH'', PInt 40), (''wind'', PInt 1), (''rain'', PList [])]) =
   \<lparr>model_calls = [], result = Inr (Failure 400 missing_meteorology TypeError)\<rparr> \<and>
   py_float demo_env
     (dict_get [(''temp'', PInt 20), (''RH'', PInt 40), (''wind'', PInt 1), (''rain'', PList [])]
        ''temp'' PNone) = Inr (Fin 20) \<and>
   py_float demo_env
     (dict_get [(''temp'', PInt 20), (''RH'', PInt 40), (''wind'', PInt 1), (''rain'', PList [])]
        ''RH'' PNone) = Inr (Fin 40) \<and>
   py_float demo_env
     (dict_get [(''temp'', PInt 20), (''RH'', PInt 40), (''wind'', PInt 1), (''rain'', PList [])]
        ''wind'' PNone) = Inr (Fin 1)"
  by code_simp

text \<open>
  C9, amended. For a request that gets past the conversion of X and Y and the encoding
  of month and day, the missing-meteorology failure is returned exactly when the four
  indexes are not all supplied and \<^verbatim>\<open>float\<close> fails on temp, on RH, on wind, or on a
  rain field that is present; an absent rain key defaults to 0.0 and is never the cause.
\<close>

theorem missing_meteorology_iff:
  assumes "py_int env (dict_get kvs ''X'' (PInt 5)) = Inr X_val"
    and "py_int env (dict_get kvs ''Y'' (PInt 5)) = Inr Y_val"
    and "encode_month_day env (fst (month_and_day env kvs)) (snd (month_and_day env kvs)) =
           Inr (month_enc, day_enc)"
  shows "((\<exists>e. result (predict env (PDict kvs)) = Inr (Failure 400 missing_meteorology e)) \<longleftrightarrow>
            index_absent kvs \<and>
            (isl (py_float env (dict_get kvs ''temp'' PNone)) \<or>
             isl (py_float env (dict_get kvs ''RH'' PNone)) \<or>
             isl (py_float env (dict_get kvs ''wind'' PNone)) \<or>
             isl (py_float env (dict_get kvs ''rain'' (PFloat (Fin 0.0)))))) \<and>
         (map_of kvs ''rain'' = None \<longrightarrow>
            \<not> isl (py_float env (dict_get kvs ''rain'' (PFloat (Fin 0.0)))))"
proof (intro conjI impI)
  show "(\<exists>e. result (predict env (PDict kvs)) = Inr (Failure 400 missing_meteorology e)) \<longleftrightarrow>
            index_absent kvs \<and>
            (isl (py_float env (dict_get kvs ''temp'' PNone)) \<or>
             isl (py_float env (dict_get kvs ''RH'' PNone)) \<or>
             isl (py_float env (dict_get kvs ''wind'' PNone)) \<or>
             isl (py_float env (dict_get kvs ''rain'' (PFloat (Fin 0.0)))))"
    unfolding resolve_indexes_fails[symmetric]
  proof (cases env kvs rule: predict_cases)
    case (bad_weather X Y m d e)
    then show "(\<exists>e. result (predict env (PDict kvs)) = Inr (Failure 400 missing_meteorology e)) \<longleftrightarrow>
      (\<exists>e. resolve_indexes env kvs = Inl e)"
      by (simp add: responds_def)
  next
    case (bad_feature X Y m d ffmc dmc dc isi e)
    then show "(\<exists>e. result (predict env (PDict kvs)) = Inr (Failure 400 missing_meteorology e)) \<longleftrightarrow>
      (\<exists>e. resolve_indexes env kvs = Inl e)"
      by (simp add: escapes_def)
  next
    case (model X Y m d ffmc dmc dc isi weather features)
    then show "(\<exists>e. result (predict env (PDict kvs)) = Inr (Failure 400 missing_meteorology e)) \<longleftrightarrow>
      (\<exists>e. resolve_indexes env kvs = Inl e)"
      by (simp add: result_run_model_not_400)
  qed (use assms in simp_all)
next
  assume "map_of kvs ''rain'' = None"
  then show "\<not> isl (py_float env (dict_get kvs ''rain'' (PFloat (Fin 0.0))))"
    by (simp add: dict_get_absent)
qed

theorem missing_meteorology_iff_witness:
  "(\<exists>e. result (predict demo_env (PDict [(''RH'', PInt 40), (''wind'', PInt 1)])) =
      Inr (Failure 400 missing_meteorology e)) \<and>
   map_of [(''RH'', PInt 40), (''wind'', PInt 1)] ''rain'' = None \<and>
   \<not> isl (py_float demo_env (dict_get [(''RH'', PInt 40), (''wind'', PInt 1)] ''rain'' (PFloat (Fin 0.0))))"
proof -
  have x: "py_int demo_env (dict_get [(''RH'', PInt 40), (''wind'', PInt 1)] ''X'' (PInt 5)) = Inr 5"
    and y: "py_int demo_env (dict_get [(''RH'', PInt 40), (''wind'', PInt 1)] ''Y'' (PInt 5)) = Inr 5"
    and e: "encode_month_day demo_env
              (fst (month_and_day demo_env [(''RH'', PInt 40), (''wind'', PInt 1)]))
              (snd (month_and_day demo_env [(''RH'', PInt 40), (''wind'', PInt 1)])) = Inr (9, 6)"
    by code_simp+
  have a: "index_absent [(''RH'', PInt 40), (''wind'', PInt 1)]"
    and t: "isl (py_float demo_env (dict_get [(''RH'', PInt 40), (''wind'', PInt 1)] ''temp'' PNone))"
    and r: "map_of [(''RH'', PInt 40), (''wind'', PInt 1)] ''rain'' = None"
    by code_simp+
  from missing_meteorology_iff[OF x y e] a t r show ?thesis by blast
qed

text \<open>
  C6. The conversions of X and Y (lines 105 and 106) and of the supplied indexes (lines
  156 to 159) are outside every \<^verbatim>\<open>try\<close>: on the body \<^verbatim>\<open>{"X": null}\<close>, and on a body
  whose FFMC is a list, the \<^verbatim>\<open>TypeError\<close> leaves the view uncaught, where the claim
  has a structured failure response.
\<close>

theorem malformed_field_escapes:
  "predict env (PDict [(''X'', PNone)]) = \<lparr>model_calls = [], result = Inl TypeError\<rparr> \<and>
   predict demo_env
     (PDict [(''FFMC'', PList []), (''DMC'', PInt 50), (''DC'', PInt 300), (''ISI'', PInt 10)]) =
     \<lparr>model_calls = [], result = Inl TypeError\<rparr>"
proof
  show "predict env (PDict [(''X'', PNone)]) = \<lparr>model_calls = [], result = Inl TypeError\<rparr>"
    by (simp add: predict_def dict_get_def escapes_def)
  show "predict demo_env
     (PDict [(''FFMC'', PList []), (''DMC'', PInt 50), (''DC'', PInt 300), (''ISI'', PInt 10)]) =
     \<lparr>model_calls = [], result = Inl TypeError\<rparr>"
    by code_simp
qed

end
